theory Spec2Isabelle
  imports
    Complex_Main
    "HOL-Library.Word"
    "HOL-Library.Multiset"
    "HOL-Library.Sublist"
    "HOL-Library.Char_ord"
    "HOL-Library.List_Lexorder"
    "HOL-Library.Product_Lexorder"
    "HOL-Library.Option_ord"
begin

section \<open>The effort dashboard of \<^verbatim>\<open>app.py\<close>\<close>

text \<open>
  \<^verbatim>\<open>app.py\<close> is one script: \<^verbatim>\<open>load_data\<close> reads \<^verbatim>\<open>round_players.csv\<close> into a data
  frame, the sidebar filters it, and the main area sums the selected statistics, groups
  them by player and builds two leaderboards and two searchable tables.

  A data frame is a list of rows in frame order. A cell of \<^verbatim>\<open>playerName\<close>,
  \<^verbatim>\<open>positionName\<close> or \<^verbatim>\<open>roundNumber\<close> may be missing (\<open>None\<close>, the NaN of pandas), and so
  may a team name that \<^verbatim>\<open>Series.map\<close> does not find. The columns \<^verbatim>\<open>mins\<close>, \<^verbatim>\<open>runs\<close>,
  \<^verbatim>\<open>kickPressures\<close>, \<^verbatim>\<open>kicksDefused\<close>, \<^verbatim>\<open>supports\<close>, \<^verbatim>\<open>decoys\<close> and \<^verbatim>\<open>tackles\<close> are the
  \<^verbatim>\<open>int64\<close> columns that \<^verbatim>\<open>read_csv\<close> makes of integer cells: 64-bit words, read as
  signed numbers by \<open>sint\<close>, whose sums wrap around. A string is a list of characters
  with code points below 256.
\<close>

subsection \<open>Rows of the frames\<close>

type_synonym int64 = "64 word"

record csv_row =
  playerName :: "string option"
  teamId :: int
  positionName :: "string option"
  roundNumber :: "int option"
  mins :: int64
  runs :: int64
  kickPressures :: int64
  kicksDefused :: int64
  supports :: int64
  decoys :: int64
  tackles :: int64

text \<open>\<^verbatim>\<open>df['teamName'] = df['teamId'].map(team_name_mapping)\<close> adds a column.\<close>

record round_row = csv_row +
  teamName :: "string option"

text \<open>\<^verbatim>\<open>filtered_df['efforts'] = ...\<close> adds another.\<close>

record effort_row = round_row +
  efforts :: int64

datatype py_error = TypeError

subsection \<open>\<^verbatim>\<open>load_data\<close>\<close>

definition team_name_mapping_items :: "(int \<times> string) list" where
  "team_name_mapping_items =
    [(500011, ''Brisbane Broncos''),
     (500013, ''Canberra Raiders''),
     (500010, ''Canterbury-Bankstown Bulldogs''),
     (500028, ''Cronulla-Sutherland Sharks''),
     (500004, ''Gold Coast Titans''),
     (500002, ''Manly-Warringah Sea Eagles''),
     (500021, ''Melbourne Storm''),
     (500003, ''Newcastle Knights''),
     (500032, ''New Zealand Warriors''),
     (500012, ''North Queensland Cowboys''),
     (500031, ''Parramatta Eels''),
     (500014, ''Penrith Panthers''),
     (500005, ''South Sydney Rabbitohs''),
     (500022, ''St George Illawarra Dragons''),
     (500001, ''Sydney Roosters''),
     (500023, ''Wests Tigers''),
     (500723, ''The Dolphins'')]"

definition team_name_mapping :: "int \<rightharpoonup> string" where
  "team_name_mapping = map_of team_name_mapping_items"

text \<open>\<^verbatim>\<open>Series.map(dict)\<close>: a value that is no key of the dictionary becomes NaN.\<close>

definition add_teamName :: "csv_row \<Rightarrow> round_row" where
  "add_teamName r = csv_row.extend r (round_row.fields (team_name_mapping (teamId r)))"

text \<open>
  \<^verbatim>\<open>groupby(['playerName', 'teamName', 'positionName'])\<close> with the defaults of pandas:
  a row with a missing value in a key column belongs to no group (\<^verbatim>\<open>dropna=True\<close>), and
  the groups come in the order of their sorted keys (\<^verbatim>\<open>sort=True\<close>).
\<close>

type_synonym group_key = "string \<times> string \<times> string"

definition key_of :: "'a round_row_scheme \<Rightarrow> group_key option" where
  "key_of r =
     (case playerName r of
        None \<Rightarrow> None
      | Some p \<Rightarrow>
          (case teamName r of
             None \<Rightarrow> None
           | Some t \<Rightarrow>
               (case positionName r of
                  None \<Rightarrow> None
                | Some q \<Rightarrow> Some (p, t, q))))"

definition group_keys :: "'a round_row_scheme list \<Rightarrow> group_key list" where
  "group_keys df = sort (remdups (List.map_filter key_of df))"

definition group_rows :: "'a round_row_scheme list \<Rightarrow> group_key \<Rightarrow> 'a round_row_scheme list" where
  "group_rows df k = filter (\<lambda>r. key_of r = Some k) df"

text \<open>The aggregation \<^verbatim>\<open>'count'\<close>: the number of cells that are not missing.\<close>

definition count :: "'a option list \<Rightarrow> nat" where
  "count cells = length (filter (\<lambda>c. c \<noteq> None) cells)"

text \<open>
  The aggregated frame after \<^verbatim>\<open>reset_index()\<close> and \<^verbatim>\<open>rename\<close>: the key columns, the sum
  of \<^verbatim>\<open>mins\<close> (a sum of \<^verbatim>\<open>int64\<close>, which wraps) and the count of \<^verbatim>\<open>roundNumber\<close>.
\<close>

record totals_row =
  playerName :: string
  teamName :: string
  positionName :: string
  totalMins :: int64
  gamesPlayed :: nat

definition totals_of :: "'a round_row_scheme list \<Rightarrow> group_key \<Rightarrow> totals_row" where
  "totals_of df k =
     \<lparr> playerName = fst k, teamName = fst (snd k), positionName = snd (snd k),
       totalMins = sum_list (map mins (group_rows df k)),
       gamesPlayed = count (map roundNumber (group_rows df k)) \<rparr>"

definition load_data :: "csv_row list \<Rightarrow> round_row list \<times> totals_row list" where
  "load_data csv =
     (let df = map add_teamName csv;
          player_totals = map (totals_of df) (group_keys df)
      in (df, player_totals))"

subsection \<open>The sidebar filters\<close>

text \<open>
  \<^verbatim>\<open>sorted(column.unique())\<close>, at lines 63, 77 and 97. \<^verbatim>\<open>unique()\<close> keeps the first
  occurrence of each value, all missing values counting as one. \<^verbatim>\<open>sorted\<close> compares the
  elements with \<^verbatim>\<open><\<close>, which raises \<^verbatim>\<open>TypeError\<close> between a string and the float NaN; a
  list that holds NaN and a string has at least one such comparison.
\<close>

definition sorted_unique :: "string option list \<Rightarrow> py_error + string option list" where
  "sorted_unique cells =
     (let xs = remdups cells
      in if None \<in> set xs \<and> filter (\<lambda>x. x \<noteq> None) xs \<noteq> [] then Inl TypeError
         else Inr (sort xs))"

text \<open>
  What the user picked in the three \<^verbatim>\<open>multiselect\<close> widgets (\<^verbatim>\<open>default=[]\<close>).
\<close>

record selection =
  selected_positions :: "string option list"
  selected_teams :: "string option list"
  selected_players :: "string option list"

definition all_positions :: "'a round_row_scheme list \<Rightarrow> py_error + string option list" where
  "all_positions df = sorted_unique (map csv_row.positionName df)"

definition all_teams :: "'a round_row_scheme list \<Rightarrow> py_error + string option list" where
  "all_teams df = sorted_unique (map round_row.teamName df)"

text \<open>The options of the player widget come from the frame filtered by position and team.\<close>

definition all_players :: "'a round_row_scheme list \<Rightarrow> py_error + string option list" where
  "all_players by_position_team = sorted_unique (map csv_row.playerName by_position_team)"

text \<open>\<^verbatim>\<open>Series.isin(values)\<close>; a missing value is in \<^verbatim>\<open>values\<close> when NaN is.\<close>

definition isin :: "'a \<Rightarrow> 'a list \<Rightarrow> bool" where
  "isin x values = (x \<in> set values)"

definition filtered_df ::
  "'a round_row_scheme list \<Rightarrow> selection \<Rightarrow> py_error + 'a round_row_scheme list" where
  "filtered_df df sel =
     (case all_positions df of
        Inl e \<Rightarrow> Inl e
      | Inr position_options \<Rightarrow>
          (let positions = (if selected_positions sel = [] then position_options
                            else selected_positions sel)
           in case all_teams df of
                Inl e \<Rightarrow> Inl e
              | Inr team_options \<Rightarrow>
                  (let teams = (if selected_teams sel = [] then team_options
                                else selected_teams sel);
                       by_position_team =
                         filter (\<lambda>r. isin (csv_row.positionName r) positions
                                   \<and> isin (round_row.teamName r) teams) df
                   in case all_players by_position_team of
                        Inl e \<Rightarrow> Inl e
                      | Inr player_options \<Rightarrow>
                          if selected_players sel \<noteq> []
                          then Inr (filter (\<lambda>r. isin (csv_row.playerName r)
                                                   (selected_players sel))
                                      by_position_team)
                          else Inr by_position_team)))"

subsection \<open>The selected statistics and \<^verbatim>\<open>efforts\<close>\<close>

datatype stat = Runs | KickPressures | KicksDefused | Supports | Decoys | Tackles

definition available_stats :: "stat list" where
  "available_stats = [Runs, KickPressures, KicksDefused, Supports, Decoys, Tackles]"

fun column :: "stat \<Rightarrow> 'a csv_row_scheme \<Rightarrow> int64" where
  "column Runs r = runs r"
| "column KickPressures r = kickPressures r"
| "column KicksDefused r = kicksDefused r"
| "column Supports r = supports r"
| "column Decoys r = decoys r"
| "column Tackles r = tackles r"

text \<open>
  \<^verbatim>\<open>filtered_df[selected_stats].sum(axis=1)\<close>: the sum along each row, in \<^verbatim>\<open>int64\<close>.
\<close>

definition row_sum :: "stat list \<Rightarrow> 'a csv_row_scheme \<Rightarrow> int64" where
  "row_sum selected_stats r = sum_list (map (\<lambda>s. column s r) selected_stats)"

definition with_efforts :: "stat list \<Rightarrow> round_row list \<Rightarrow> effort_row list" where
  "with_efforts selected_stats df =
     map (\<lambda>r. round_row.extend r (effort_row.fields (row_sum selected_stats r))) df"

subsection \<open>Floats\<close>

text \<open>
  A \<^verbatim>\<open>float64\<close> is a rational number or one of the three special values; the sign of
  zero is not kept. \<open>float64 x\<close> is the float nearest to \<open>x\<close>, ties going to the even
  significand of 53 bits: \<open>exponent_of x\<close> is the \<open>e\<close> with \<open>2 ^ e \<le> \<bar>x\<bar> < 2 ^ (e + 1)\<close>.
  The quotients of the script lie between \<open>2 ^ - 63\<close> and \<open>2 ^ 63\<close> in absolute value,
  where a float is neither subnormal nor too large.
\<close>

datatype float_val = Finite rat | PosInf | NegInf | NaN

function floor_log2 :: "int \<Rightarrow> int" where
  "floor_log2 n = (if n < 2 then 0 else 1 + floor_log2 (n div 2))"
  by pat_completeness auto
termination
  by (relation "measure nat") auto

declare floor_log2.simps [simp del]

definition exponent_of :: "rat \<Rightarrow> int" where
  "exponent_of x =
     (if 1 \<le> \<bar>x\<bar> then floor_log2 \<lfloor>\<bar>x\<bar>\<rfloor>
      else - (1 + floor_log2 (\<lceil>1 / \<bar>x\<bar>\<rceil> - 1)))"

definition pow2 :: "int \<Rightarrow> rat" where
  "pow2 e = (if 0 \<le> e then 2 ^ nat e else 1 / 2 ^ nat (- e))"

definition round_half_even :: "rat \<Rightarrow> int" where
  "round_half_even x =
     (let f = \<lfloor>x\<rfloor>; r = x - of_int f
      in if r < 1 / 2 then f else if 1 / 2 < r then f + 1 else if even f then f else f + 1)"

definition float64 :: "rat \<Rightarrow> rat" where
  "float64 x =
     (if x = 0 then 0
      else (let ulp = pow2 (exponent_of x - 52)
            in of_int (round_half_even (x / ulp)) * ulp))"

text \<open>
  The quotient of two \<^verbatim>\<open>int64\<close> columns: both are converted to floats and divided.
  Dividing by zero raises nothing in pandas: it gives an infinity with the sign of the
  numerator, and NaN for \<^verbatim>\<open>0 / 0\<close>.
\<close>

definition true_div :: "int64 \<Rightarrow> int64 \<Rightarrow> float_val" where
  "true_div a b =
     (if sint b \<noteq> 0
      then Finite (float64 (float64 (of_int (sint a)) / float64 (of_int (sint b))))
      else if 0 < sint a then PosInf
      else if sint a < 0 then NegInf
      else NaN)"

subsection \<open>Season totals of the selected statistics\<close>

record season_row = totals_row +
  efforts :: int64
  efforts_per_min :: float_val

definition season_of :: "effort_row list \<Rightarrow> group_key \<Rightarrow> season_row" where
  "season_of df k =
     (let total_mins = sum_list (map mins (group_rows df k));
          total_efforts = sum_list (map effort_row.efforts (group_rows df k))
      in \<lparr> playerName = fst k, teamName = fst (snd k), positionName = snd (snd k),
           totalMins = total_mins,
           gamesPlayed = count (map roundNumber (group_rows df k)),
           efforts = total_efforts,
           efforts_per_min = true_div total_efforts total_mins \<rparr>)"

definition player_season_stats :: "effort_row list \<Rightarrow> season_row list" where
  "player_season_stats df = map (season_of df) (group_keys df)"

subsection \<open>Leaderboards\<close>

text \<open>
  \<^verbatim>\<open>DataFrame.sort_values(by, ascending=False)\<close> is called with the default
  \<^verbatim>\<open>kind='quicksort'\<close>, which pandas documents as not stable, and the default
  \<^verbatim>\<open>na_position='last'\<close>. The sorting routine is therefore a parameter \<open>srt\<close> of the
  leaderboards; what pandas promises of one call is \<open>sort_values_result\<close>: the rows of the
  frame, each as often as before, in an order where no row stands before one that has to
  precede it. \<open>before a b\<close> says that \<open>a\<close> may stand before \<open>b\<close>.
\<close>

type_synonym 'a sort_values = "('a \<Rightarrow> 'a \<Rightarrow> bool) \<Rightarrow> 'a list \<Rightarrow> 'a list"

definition sort_values_result :: "('a \<Rightarrow> 'a \<Rightarrow> bool) \<Rightarrow> 'a list \<Rightarrow> 'a list \<Rightarrow> bool" where
  "sort_values_result before df out = (mset out = mset df \<and> sorted_wrt before out)"

text \<open>The comparison \<^verbatim>\<open><=\<close> of floats; it is false when a side is NaN.\<close>

fun float_le :: "float_val \<Rightarrow> float_val \<Rightarrow> bool" where
  "float_le NaN y = False"
| "float_le x NaN = False"
| "float_le NegInf y = True"
| "float_le x PosInf = True"
| "float_le (Finite a) (Finite b) = (a \<le> b)"
| "float_le x y = False"

definition efforts_descending :: "season_row \<Rightarrow> season_row \<Rightarrow> bool" where
  "efforts_descending a b = (sint (efforts b) \<le> sint (efforts a))"

definition efforts_per_min_descending :: "season_row \<Rightarrow> season_row \<Rightarrow> bool" where
  "efforts_per_min_descending a b =
     (efforts_per_min b = NaN \<or> float_le (efforts_per_min b) (efforts_per_min a))"

text \<open>\<^verbatim>\<open>reset_index(drop=True)\<close>, then \<^verbatim>\<open>index + 1\<close>: the rows numbered from 1.\<close>

definition ranked :: "'a list \<Rightarrow> (nat \<times> 'a) list" where
  "ranked df = zip [1 ..< Suc (length df)] df"

definition top_players :: "season_row sort_values \<Rightarrow> season_row list \<Rightarrow> (nat \<times> season_row) list" where
  "top_players srt stats = ranked (take 10 (srt efforts_descending stats))"

definition min_mins :: int where
  "min_mins = 80"

definition efficient_players ::
  "season_row sort_values \<Rightarrow> season_row list \<Rightarrow> (nat \<times> season_row) list" where
  "efficient_players srt stats =
     ranked (take 10 (srt efforts_per_min_descending
                        (filter (\<lambda>r. min_mins \<le> sint (totalMins r)) stats)))"

subsection \<open>Searching the tables by player name\<close>

text \<open>
  \<^verbatim>\<open>Series.str.contains(pat, case=False)\<close> has \<^verbatim>\<open>regex=True\<close> by default: the term is
  compiled as a regular expression with \<^verbatim>\<open>re.IGNORECASE\<close> and searched in each name.
  The patterns modelled are those made of ordinary characters and the dot; for a term
  with another special character of \<^verbatim>\<open>re\<close> the model gives \<open>None\<close> and says nothing.
\<close>

definition regex_special :: "char list" where
  "regex_special = ''.^$*+?{}[]|()'' @ [CHR 0x5C]"

datatype atom = Literal char | AnyChar

fun compile :: "string \<Rightarrow> atom list option" where
  "compile [] = Some []"
| "compile (c # cs) =
     (if c = CHR ''.'' then map_option ((#) AnyChar) (compile cs)
      else if c \<in> set regex_special then None
      else map_option ((#) (Literal c)) (compile cs))"

text \<open>
  Under \<^verbatim>\<open>re.IGNORECASE\<close> two characters match when their lower cases are equal. Below
  256 the characters with another lower case are the letters \<^verbatim>\<open>A\<close> to \<^verbatim>\<open>Z\<close> and the
  letters from 192 to 222 (the multiplication sign 215 is none); each lies 32 below its
  lower case.
\<close>

definition upper_case_letters :: "char list" where
  "upper_case_letters =
     ''ABCDEFGHIJKLMNOPQRSTUVWXYZ'' @
      [CHR 0xC0, CHR 0xC1, CHR 0xC2, CHR 0xC3, CHR 0xC4, CHR 0xC5, CHR 0xC6, CHR 0xC7,
       CHR 0xC8, CHR 0xC9, CHR 0xCA, CHR 0xCB, CHR 0xCC, CHR 0xCD, CHR 0xCE, CHR 0xCF,
       CHR 0xD0, CHR 0xD1, CHR 0xD2, CHR 0xD3, CHR 0xD4, CHR 0xD5, CHR 0xD6, CHR 0xD8,
       CHR 0xD9, CHR 0xDA, CHR 0xDB, CHR 0xDC, CHR 0xDD, CHR 0xDE]"

definition lower_case_letters :: "char list" where
  "lower_case_letters =
     ''abcdefghijklmnopqrstuvwxyz'' @
      [CHR 0xE0, CHR 0xE1, CHR 0xE2, CHR 0xE3, CHR 0xE4, CHR 0xE5, CHR 0xE6, CHR 0xE7,
       CHR 0xE8, CHR 0xE9, CHR 0xEA, CHR 0xEB, CHR 0xEC, CHR 0xED, CHR 0xEE, CHR 0xEF,
       CHR 0xF0, CHR 0xF1, CHR 0xF2, CHR 0xF3, CHR 0xF4, CHR 0xF5, CHR 0xF6, CHR 0xF8,
       CHR 0xF9, CHR 0xFA, CHR 0xFB, CHR 0xFC, CHR 0xFD, CHR 0xFE]"

definition lower :: "char \<Rightarrow> char" where
  "lower c =
     (case map_of (zip upper_case_letters lower_case_letters) c of
        None \<Rightarrow> c
      | Some d \<Rightarrow> d)"

fun atom_matches :: "atom \<Rightarrow> char \<Rightarrow> bool" where
  "atom_matches (Literal c) d = (lower c = lower d)"
| "atom_matches AnyChar d = (d \<noteq> CHR 0x0A)"

fun match_here :: "atom list \<Rightarrow> string \<Rightarrow> bool" where
  "match_here [] s = True"
| "match_here (a # as) [] = False"
| "match_here (a # as) (d # ds) = (atom_matches a d \<and> match_here as ds)"

fun re_search :: "atom list \<Rightarrow> string \<Rightarrow> bool" where
  "re_search p [] = match_here p []"
| "re_search p (d # ds) = (match_here p (d # ds) \<or> re_search p ds)"

text \<open>
  \<^verbatim>\<open>if search_term: df[df['playerName'].str.contains(search_term, case=False)]
  else: df\<close>

  For a missing name \<^verbatim>\<open>str.contains\<close> gives a missing value, and what the selection
  \<^verbatim>\<open>df[...]\<close> makes of it depends on the version of pandas; the model gives \<open>None\<close> for a
  frame with a missing name, too.
\<close>

definition search_by_name ::
  "('a \<Rightarrow> string option) \<Rightarrow> string \<Rightarrow> 'a list \<Rightarrow> 'a list option" where
  "search_by_name name search_term df =
     (if search_term \<noteq> []
      then (case compile search_term of
              None \<Rightarrow> None
            | Some p \<Rightarrow>
                if filter (\<lambda>r. name r = None) df \<noteq> [] then None
                else Some (filter (\<lambda>r. case name r of
                                          None \<Rightarrow> False
                                        | Some n \<Rightarrow> re_search p n) df))
      else Some df)"

definition filtered_display_df :: "string \<Rightarrow> effort_row list \<Rightarrow> effort_row list option" where
  "filtered_display_df search_term df = search_by_name csv_row.playerName search_term df"

definition filtered_season_df :: "string \<Rightarrow> season_row list \<Rightarrow> season_row list option" where
  "filtered_season_df search_term_season stats =
     search_by_name (\<lambda>r. Some (totals_row.playerName r)) search_term_season stats"

subsection \<open>The main content area\<close>

text \<open>
  What the page shows below the sidebar: the warning, or the data of the three scatter
  plots, the two leaderboards and the two searched tables.
\<close>

record dashboard =
  individual_games :: "effort_row list"
  season_total :: "season_row list"
  top_players_table :: "(nat \<times> season_row) list"
  efficient_players_table :: "(nat \<times> season_row) list"
  raw_individual_games :: "effort_row list option"
  raw_season_totals :: "season_row list option"

datatype page = Warning string | Rendered dashboard

definition main_content ::
  "season_row sort_values \<Rightarrow> round_row list \<Rightarrow> stat list \<Rightarrow> string \<Rightarrow> string \<Rightarrow> page" where
  "main_content srt filtered selected_stats search_term search_term_season =
     (if selected_stats = []
      then Warning ''Please select at least one statistic to analyze.''
      else
        (let games = with_efforts selected_stats filtered;
             stats = player_season_stats games
         in Rendered
              \<lparr> individual_games = games,
                season_total = stats,
                top_players_table = top_players srt stats,
                efficient_players_table = efficient_players srt stats,
                raw_individual_games = filtered_display_df search_term games,
                raw_season_totals = filtered_season_df search_term_season stats \<rparr>))"

text \<open>
  The whole script, from the rows of the CSV file to the page. An exception of the
  sidebar ends the run before the main content area is reached.
\<close>

definition app ::
  "season_row sort_values \<Rightarrow> csv_row list \<Rightarrow> selection \<Rightarrow> stat list \<Rightarrow> string \<Rightarrow> string
     \<Rightarrow> py_error + page" where
  "app srt csv sel selected_stats search_term search_term_season =
     (case filtered_df (fst (load_data csv)) sel of
        Inl e \<Rightarrow> Inl e
      | Inr filtered \<Rightarrow>
          Inr (main_content srt filtered selected_stats search_term search_term_season))"

subsection \<open>The quicksort of NumPy on a short column\<close>

text \<open>
  Where the processor has AVX-512, \<^verbatim>\<open>argsort(kind='quicksort')\<close> of NumPy sorts a column
  of at most eight 64-bit keys in one vector register of eight lanes, each a key with its
  row number (\<^verbatim>\<open>argsort_8_64bit\<close> of the library x86-simd-sort): the lanes beyond the
  column hold the greatest \<^verbatim>\<open>int64\<close>, and six compare-exchange steps sort the register.
  In a step each lane receives the smaller or the greater of its key and the key of its
  partner lane, and the row number of the partner when the key it receives is not equal
  to its own (\<^verbatim>\<open>cmp_merge\<close>): equal keys never change places in one step, but a row may
  jump over an equal one in two. For \<^verbatim>\<open>ascending=False\<close>, \<^verbatim>\<open>nargsort\<close> of pandas hands the
  column over reversed and reverses the answer.
\<close>

type_synonym lane = "int \<times> nat"

definition cmp_merge :: "(nat \<Rightarrow> nat) \<Rightarrow> (nat \<Rightarrow> bool) \<Rightarrow> lane list \<Rightarrow> lane list" where
  "cmp_merge partner takes_max zmm =
     map (\<lambda>i. let key = (if takes_max i then max (fst (zmm ! partner i)) (fst (zmm ! i))
                          else min (fst (zmm ! partner i)) (fst (zmm ! i)))
               in (key, if key = fst (zmm ! i) then snd (zmm ! i) else snd (zmm ! partner i)))
       [0, 1, 2, 3, 4, 5, 6, 7]"

text \<open>The partner lanes of the steps, and the lanes that take the greater key.\<close>

definition neighbour :: "nat \<Rightarrow> nat" where
  "neighbour i = (if even i then i + 1 else i - 1)"

definition mirror_of_four :: "nat \<Rightarrow> nat" where
  "mirror_of_four i = 4 * (i div 4) + (3 - i mod 4)"

definition mirror_of_eight :: "nat \<Rightarrow> nat" where
  "mirror_of_eight i = 7 - i"

definition second_neighbour :: "nat \<Rightarrow> nat" where
  "second_neighbour i = (if even (i div 2) then i + 2 else i - 2)"

definition mask_AA :: "nat \<Rightarrow> bool" where
  "mask_AA i = odd i"

definition mask_CC :: "nat \<Rightarrow> bool" where
  "mask_CC i = odd (i div 2)"

definition mask_F0 :: "nat \<Rightarrow> bool" where
  "mask_F0 i = (4 \<le> i)"

definition sort_zmm_64bit :: "lane list \<Rightarrow> lane list" where
  "sort_zmm_64bit zmm =
     cmp_merge neighbour mask_AA
       (cmp_merge second_neighbour mask_CC
         (cmp_merge mirror_of_eight mask_F0
           (cmp_merge neighbour mask_AA
             (cmp_merge mirror_of_four mask_CC
               (cmp_merge neighbour mask_AA zmm)))))"

definition int64_max :: int where
  "int64_max = 9223372036854775807"

definition argsort_8_64bit :: "int list \<Rightarrow> nat list" where
  "argsort_8_64bit arr =
     (let n = length arr
      in take n (map snd (sort_zmm_64bit
                            (zip (arr @ replicate (8 - n) int64_max)
                                 ([0 ..< n] @ replicate (8 - n) 0)))))"

definition nargsort_descending :: "int list \<Rightarrow> nat list" where
  "nargsort_descending items =
     (let n = length items
      in rev (map (\<lambda>j. n - 1 - j) (argsort_8_64bit (rev items))))"

subsection \<open>Vocabulary of the properties\<close>

text \<open>The key columns of an aggregated row.\<close>

definition key_of_totals :: "'a totals_row_scheme \<Rightarrow> group_key" where
  "key_of_totals g = (totals_row.playerName g, totals_row.teamName g, totals_row.positionName g)"

text \<open>A column that holds a missing value and a present one: it cannot be sorted.\<close>

definition mixed :: "string option list \<Rightarrow> bool" where
  "mixed cells = (None \<in> set cells \<and> filter (\<lambda>x. x \<noteq> None) cells \<noteq> [])"

text \<open>
  The rows a selection asks for, by position and team and by all three widgets; an empty
  list restricts nothing.
\<close>

definition selected_by_position_and_team :: "selection \<Rightarrow> 'a round_row_scheme \<Rightarrow> bool" where
  "selected_by_position_and_team sel r =
     ((selected_positions sel = [] \<or> csv_row.positionName r \<in> set (selected_positions sel))
      \<and> (selected_teams sel = [] \<or> round_row.teamName r \<in> set (selected_teams sel)))"

definition selected_by :: "selection \<Rightarrow> 'a round_row_scheme \<Rightarrow> bool" where
  "selected_by sel r =
     ((selected_positions sel = [] \<or> csv_row.positionName r \<in> set (selected_positions sel))
      \<and> (selected_teams sel = [] \<or> round_row.teamName r \<in> set (selected_teams sel))
      \<and> (selected_players sel = [] \<or> csv_row.playerName r \<in> set (selected_players sel)))"

text \<open>
  The three calls of \<^verbatim>\<open>sorted\<close> in the sidebar get columns they can sort: the positions
  and the team names of the frame, and the player names of the rows selected by position
  and team.
\<close>

definition options_sortable :: "'a round_row_scheme list \<Rightarrow> selection \<Rightarrow> bool" where
  "options_sortable df sel =
     (\<not> mixed (map csv_row.positionName df)
      \<and> \<not> mixed (map round_row.teamName df)
      \<and> \<not> mixed (map csv_row.playerName (filter (selected_by_position_and_team sel) df)))"

text \<open>
  A name contains a term when letter case is ignored: the term in lower case is a
  substring of the name in lower case. A missing name contains nothing.
\<close>

definition contains_ignoring_case :: "string \<Rightarrow> string option \<Rightarrow> bool" where
  "contains_ignoring_case search_term name =
     (case name of
        None \<Rightarrow> False
      | Some n \<Rightarrow> sublist (map lower search_term) (map lower n))"

text \<open>Nothing picked in any of the three widgets.\<close>

definition no_selection :: selection where
  "no_selection = \<lparr> selected_positions = [], selected_teams = [], selected_players = [] \<rparr>"

subsection \<open>Sorting routines for the examples\<close>

text \<open>
  A routine that keeps the promise of \<open>sort_values_result\<close> when \<open>before\<close> is total and
  transitive: it inserts each row before the first row it may stand before.
\<close>

fun insert_by :: "('a \<Rightarrow> 'a \<Rightarrow> bool) \<Rightarrow> 'a \<Rightarrow> 'a list \<Rightarrow> 'a list" where
  "insert_by before x [] = [x]"
| "insert_by before x (y # ys) =
     (if before x y then x # y # ys else y # insert_by before x ys)"

definition insertion_sort :: "'a sort_values" where
  "insertion_sort before df = foldr (insert_by before) df []"

text \<open>A routine that leaves the frame as it is, for the examples that read no leaderboard.\<close>

definition frame_order :: "'a sort_values" where
  "frame_order before df = df"

text \<open>
  \<^verbatim>\<open>sort_values('efforts', ascending=False)\<close> on a season frame of at most eight rows,
  with the quicksort of NumPy as modelled above: the rows in the order of the row numbers
  that \<open>nargsort_descending\<close> returns for the \<^verbatim>\<open>efforts\<close> column. The paths that NumPy
  takes on a longer column are not modelled; there the routine inserts.
\<close>

definition quicksort_by_efforts :: "season_row sort_values" where
  "quicksort_by_efforts before df =
     (if length df \<le> 8
      then map (\<lambda>i. df ! i) (nargsort_descending (map (\<lambda>r. sint (efforts r)) df))
      else insertion_sort before df)"

subsection \<open>Example frames\<close>

definition smith_round1 :: csv_row where
  "smith_round1 =
     \<lparr> csv_row.playerName = Some ''John Smith'', teamId = 500001,
       csv_row.positionName = Some ''Prop'', roundNumber = Some 1, mins = 80, runs = 5,
       kickPressures = 1, kicksDefused = 0, supports = 2, decoys = 3, tackles = 30 \<rparr>"

definition smith_round2 :: csv_row where
  "smith_round2 =
     \<lparr> csv_row.playerName = Some ''John Smith'', teamId = 500001,
       csv_row.positionName = Some ''Prop'', roundNumber = Some 2, mins = 70, runs = 3,
       kickPressures = 0, kicksDefused = 1, supports = 4, decoys = 0, tackles = 25 \<rparr>"

definition jon_round1 :: csv_row where
  "jon_round1 =
     \<lparr> csv_row.playerName = Some ''Jon SMITH'', teamId = 500021,
       csv_row.positionName = Some ''Halfback'', roundNumber = Some 1, mins = 0, runs = 1,
       kickPressures = 0, kicksDefused = 0, supports = 0, decoys = 0, tackles = 0 \<rparr>"

definition jones_round1 :: csv_row where
  "jones_round1 =
     \<lparr> csv_row.playerName = Some ''Sam Jones'', teamId = 500011,
       csv_row.positionName = Some ''Wing'', roundNumber = Some 1, mins = 80, runs = 12,
       kickPressures = 0, kicksDefused = 2, supports = 1, decoys = 0, tackles = 4 \<rparr>"

text \<open>A game of a team whose id is not in the mapping.\<close>

definition unmapped_round1 :: csv_row where
  "unmapped_round1 =
     \<lparr> csv_row.playerName = Some ''Sam Jones'', teamId = 999999,
       csv_row.positionName = Some ''Wing'', roundNumber = Some 1, mins = 80, runs = 12,
       kickPressures = 0, kicksDefused = 2, supports = 1, decoys = 0, tackles = 4 \<rparr>"

text \<open>A game whose runs and tackles add up to more than an \<^verbatim>\<open>int64\<close> holds.\<close>

definition overflow_round :: csv_row where
  "overflow_round =
     \<lparr> csv_row.playerName = Some ''Max Large'', teamId = 500001,
       csv_row.positionName = Some ''Prop'', roundNumber = Some 1, mins = 80,
       runs = 9223372036854775807, kickPressures = 0, kicksDefused = 0, supports = 0,
       decoys = 0, tackles = 1 \<rparr>"

text \<open>A game with an empty \<^verbatim>\<open>roundNumber\<close> cell.\<close>

definition unnumbered_round :: csv_row where
  "unnumbered_round =
     \<lparr> csv_row.playerName = Some ''Kit Lane'', teamId = 500001,
       csv_row.positionName = Some ''Prop'', roundNumber = None, mins = 80, runs = 5,
       kickPressures = 0, kicksDefused = 0, supports = 0, decoys = 0, tackles = 20 \<rparr>"

definition example_df :: "round_row list" where
  "example_df = map add_teamName [smith_round1, jon_round1, smith_round2]"

text \<open>A per-game frame with three players, to search.\<close>

definition search_example :: "effort_row list" where
  "search_example = with_efforts [Runs] (map add_teamName [smith_round1, jones_round1, jon_round1])"

definition roosters_only :: selection where
  "roosters_only =
     \<lparr> selected_positions = [], selected_teams = [Some ''Sydney Roosters''],
       selected_players = [] \<rparr>"

definition missing_team_only :: selection where
  "missing_team_only =
     \<lparr> selected_positions = [], selected_teams = [None], selected_players = [] \<rparr>"

text \<open>Season rows for the examples; the quotient is the one the script computes.\<close>

definition aggregate :: "string \<Rightarrow> int64 \<Rightarrow> nat \<Rightarrow> int64 \<Rightarrow> season_row" where
  "aggregate name total_mins games total_efforts =
     \<lparr> playerName = name, teamName = ''Sydney Roosters'', positionName = ''Prop'',
       totalMins = total_mins, gamesPlayed = games, efforts = total_efforts,
       efforts_per_min = true_div total_efforts total_mins \<rparr>"

text \<open>Twelve players with the efforts 0 to 11 in mixed order.\<close>

definition twelve_players :: "season_row list" where
  "twelve_players =
     map (\<lambda>(name, total_efforts). aggregate name 100 2 total_efforts)
       [(''Player A'', 0), (''Player B'', 7), (''Player C'', 2), (''Player D'', 9),
        (''Player E'', 4), (''Player F'', 11), (''Player G'', 6), (''Player H'', 1),
        (''Player I'', 8), (''Player J'', 3), (''Player K'', 10), (''Player L'', 5)]"

text \<open>
  The rows of a CSV file with one game of each of four players, who made nothing but
  runs; the last two made as many.
\<close>

definition round_of :: "string \<Rightarrow> int64 \<Rightarrow> int64 \<Rightarrow> csv_row" where
  "round_of name minutes made =
     \<lparr> csv_row.playerName = Some name, teamId = 500001,
       csv_row.positionName = Some ''Prop'', roundNumber = Some 1, mins = minutes, runs = made,
       kickPressures = 0, kicksDefused = 0, supports = 0, decoys = 0, tackles = 0 \<rparr>"

definition tied_rounds :: "csv_row list" where
  "tied_rounds =
     [round_of ''Abe Able'' 80 3, round_of ''Ben Baker'' 80 8,
      round_of ''Cam Cole'' 80 40, round_of ''Dan Dale'' 80 40]"

text \<open>Four players, two of them with at least 80 minutes.\<close>

definition four_players :: "season_row list" where
  "four_players =
     [aggregate ''Cal Cole'' 79 1 50, aggregate ''Dan Dale'' 80 1 8,
      aggregate ''Eli East'' 160 2 40, aggregate ''Fin Ford'' 0 1 3]"

section \<open>Properties\<close>

subsection \<open>The sum of the selected statistics\<close>

lemma available_stats_UNIV: "set available_stats = UNIV"
proof -
  have "s \<in> set available_stats" for s
    by (cases s) (simp_all add: available_stats_def)
  then show ?thesis by blast
qed

lemma distinct_available_stats: "distinct available_stats"
  by (simp add: available_stats_def)

lemma sint_sum_list:
  "sint (sum_list ws :: int64) = signed_take_bit 63 (sum_list (map sint ws))"
proof (induction ws)
  case Nil
  then show ?case by simp
next
  case (Cons w ws)
  have "sint (w + sum_list ws) = signed_take_bit 63 (sint w + sint (sum_list ws))"
    by (simp add: sint_word_ariths)
  also have "\<dots> = signed_take_bit 63 (sint w + signed_take_bit 63 (sum_list (map sint ws)))"
    by (simp only: Cons.IH)
  also have "\<dots> = signed_take_bit 63 (sint w + sum_list (map sint ws))"
    by (metis signed_take_bit_add signed_take_bit_signed_take_bit min.idem)
  finally show ?case by simp
qed

lemma sint_row_sum_set:
  assumes "distinct selected_stats"
  shows "sint (row_sum selected_stats r)
           = signed_take_bit 63 (\<Sum>s\<in>set selected_stats. sint (column s r))"
proof -
  have "sint (row_sum selected_stats r)
          = signed_take_bit 63 (sum_list (map (\<lambda>s. sint (column s r)) selected_stats))"
    unfolding row_sum_def sint_sum_list by (simp add: comp_def)
  also have "sum_list (map (\<lambda>s. sint (column s r)) selected_stats)
               = (\<Sum>s\<in>set selected_stats. sint (column s r))"
    using assms by (rule sum_list_distinct_conv_sum_set)
  finally show ?thesis .
qed

lemma sum_selected_available:
  "(\<Sum>s\<in>set selected_stats. sint (column s r))
     = sum_list (map (\<lambda>s. if s \<in> set selected_stats then sint (column s r) else 0)
                  available_stats)"
proof -
  have "sum_list (map (\<lambda>s. if s \<in> set selected_stats then sint (column s r) else 0)
                    available_stats)
          = (\<Sum>s\<in>UNIV. if s \<in> set selected_stats then sint (column s r) else 0)"
    using distinct_available_stats available_stats_UNIV
    by (simp add: sum_list_distinct_conv_sum_set)
  also have "\<dots> = (\<Sum>s\<in>set selected_stats. sint (column s r))"
  proof -
    have "finite (UNIV :: stat set)"
      by (metis available_stats_UNIV List.finite_set)
    then show ?thesis by (simp add: sum.If_cases)
  qed
  finally show ?thesis by simp
qed

lemma length_with_efforts: "length (with_efforts selected_stats df) = length df"
  by (simp add: with_efforts_def)

lemma nth_with_efforts:
  "i < length df \<Longrightarrow> with_efforts selected_stats df ! i
     = round_row.extend (df ! i) (effort_row.fields (row_sum selected_stats (df ! i)))"
  by (simp add: with_efforts_def)

lemma efforts_extend: "effort_row.efforts (round_row.extend r (effort_row.fields e)) = e"
  by (simp add: round_row.defs effort_row.defs)

lemma truncate_extend: "round_row.truncate (round_row.extend r (effort_row.fields e)) = r"
  by (cases r) (simp add: round_row.defs effort_row.defs csv_row.defs)

lemma main_content_rendered:
  assumes "selected_stats \<noteq> []"
  shows "\<exists>d. main_content srt filtered selected_stats search_term search_term_season = Rendered d
           \<and> individual_games d = with_efforts selected_stats filtered
           \<and> season_total d = player_season_stats (with_efforts selected_stats filtered)"
  using assms by (simp add: main_content_def Let_def)

text \<open>
  C1, amended. With a non-empty selection (each statistic picked at most once, as the
  multiselect widget gives it), the page is rendered, the per-game frame has one row for
  each row of the filtered frame, with the same columns, and the \<^verbatim>\<open>efforts\<close> of each row
  is the \<^verbatim>\<open>int64\<close> sum of its selected columns: read as a signed number it is the sum of
  the selected columns wrapped into the range of \<^verbatim>\<open>int64\<close>, where over all six columns a
  column that is not selected counts 0; it is that sum itself when the sum lies in the
  range.
\<close>

theorem efforts_sum_of_selected_columns:
  assumes "selected_stats \<noteq> []" and "distinct selected_stats" and "i < length filtered"
  shows "\<exists>d. main_content srt filtered selected_stats search_term search_term_season = Rendered d
           \<and> length (individual_games d) = length filtered
           \<and> round_row.truncate (individual_games d ! i) = filtered ! i
           \<and> effort_row.efforts (individual_games d ! i)
               = sum_list (map (\<lambda>s. column s (filtered ! i)) selected_stats)
           \<and> sint (effort_row.efforts (individual_games d ! i))
               = signed_take_bit 63 (\<Sum>s\<in>set selected_stats. sint (column s (filtered ! i)))
           \<and> sint (effort_row.efforts (individual_games d ! i))
               = signed_take_bit 63
                   (sum_list (map (\<lambda>s. if s \<in> set selected_stats
                                         then sint (column s (filtered ! i)) else 0)
                                available_stats))
           \<and> (- (2 ^ 63) \<le> (\<Sum>s\<in>set selected_stats. sint (column s (filtered ! i)))
               \<and> (\<Sum>s\<in>set selected_stats. sint (column s (filtered ! i))) < 2 ^ 63
              \<longrightarrow> sint (effort_row.efforts (individual_games d ! i))
                   = (\<Sum>s\<in>set selected_stats. sint (column s (filtered ! i))))"
proof -
  let ?r = "filtered ! i"
  from main_content_rendered [OF assms(1)] obtain d
    where d: "main_content srt filtered selected_stats search_term search_term_season = Rendered d"
      and games: "individual_games d = with_efforts selected_stats filtered"
    by blast
  have row: "individual_games d ! i
               = round_row.extend ?r (effort_row.fields (row_sum selected_stats ?r))"
    using assms(3) by (simp add: games nth_with_efforts)
  have e: "effort_row.efforts (individual_games d ! i) = row_sum selected_stats ?r"
    by (simp add: row efforts_extend)
  have wrapped: "sint (row_sum selected_stats ?r)
                   = signed_take_bit 63 (\<Sum>s\<in>set selected_stats. sint (column s ?r))"
    using assms(2) by (rule sint_row_sum_set)
  have exact: "sint (row_sum selected_stats ?r) = (\<Sum>s\<in>set selected_stats. sint (column s ?r))"
    if "- (2 ^ 63) \<le> (\<Sum>s\<in>set selected_stats. sint (column s ?r))"
      and "(\<Sum>s\<in>set selected_stats. sint (column s ?r)) < 2 ^ 63"
    using that by (simp add: wrapped signed_take_bit_int_eq_self)
  have "length (individual_games d) = length filtered"
    by (simp add: games length_with_efforts)
  moreover have "round_row.truncate (individual_games d ! i) = ?r"
    by (simp add: row truncate_extend)
  moreover have "effort_row.efforts (individual_games d ! i)
                   = sum_list (map (\<lambda>s. column s ?r) selected_stats)"
    by (simp add: e row_sum_def)
  moreover have "sint (effort_row.efforts (individual_games d ! i))
                   = signed_take_bit 63 (\<Sum>s\<in>set selected_stats. sint (column s ?r))"
    by (simp only: e wrapped)
  moreover have "sint (effort_row.efforts (individual_games d ! i))
                   = signed_take_bit 63
                       (sum_list (map (\<lambda>s. if s \<in> set selected_stats
                                             then sint (column s ?r) else 0)
                                    available_stats))"
    by (simp only: e wrapped sum_selected_available)
  moreover have "- (2 ^ 63) \<le> (\<Sum>s\<in>set selected_stats. sint (column s ?r))
               \<and> (\<Sum>s\<in>set selected_stats. sint (column s ?r)) < 2 ^ 63
              \<longrightarrow> sint (effort_row.efforts (individual_games d ! i))
                   = (\<Sum>s\<in>set selected_stats. sint (column s ?r))"
    using exact by (simp only: e) blast
  ultimately show ?thesis
    using d by blast
qed

theorem efforts_sum_of_selected_columns_witness:
  "[Runs, Tackles] \<noteq> [] \<and> distinct [Runs, Tackles] \<and> 0 < length [add_teamName smith_round1]
   \<and> (\<exists>d. main_content frame_order [add_teamName smith_round1] [Runs, Tackles] [] []
            = Rendered d
          \<and> sint (effort_row.efforts (individual_games d ! 0)) = 35)"
  using efforts_sum_of_selected_columns [of "[Runs, Tackles]" 0 "[add_teamName smith_round1]"
          frame_order "[]" "[]"]
  by (simp add: add_teamName_def smith_round1_def main_content_def with_efforts_def Let_def
      row_sum_def csv_row.defs round_row.defs effort_row.defs)

text \<open>
  C1 as stated fails where the sum leaves the range of \<^verbatim>\<open>int64\<close>: a game with
  9223372036854775807 runs and 1 tackle gets the \<^verbatim>\<open>efforts\<close> -9223372036854775808, not
  the arithmetic sum 9223372036854775808.
\<close>

theorem efforts_sum_wraps:
  "map (\<lambda>r. sint (effort_row.efforts r))
     (with_efforts [Runs, Tackles] [add_teamName overflow_round]) = [- 9223372036854775808]
   \<and> sint (runs overflow_round) + sint (tackles overflow_round) = 9223372036854775808"
  by (simp add: with_efforts_def row_sum_def add_teamName_def overflow_round_def
      csv_row.defs round_row.defs effort_row.defs)

subsection \<open>Season totals\<close>

lemma set_group_keys: "set (group_keys df) = {k. \<exists>r\<in>set df. key_of r = Some k}"
  by (force simp: group_keys_def List.map_filter_def)

lemma key_of_with_efforts:
  "key_of (round_row.extend r (effort_row.fields e)) = key_of r"
  by (simp add: key_of_def round_row.defs effort_row.defs split: option.split)

lemma mins_with_efforts:
  "mins (round_row.extend r (effort_row.fields e)) = mins r"
  by (simp add: round_row.defs effort_row.defs)

lemma roundNumber_with_efforts:
  "roundNumber (round_row.extend r (effort_row.fields e)) = roundNumber r"
  by (simp add: round_row.defs effort_row.defs)

lemma group_keys_with_efforts:
  "group_keys (with_efforts selected_stats df) = group_keys df"
proof -
  have "List.map_filter key_of (with_efforts selected_stats df) = List.map_filter key_of df"
    by (induction df)
      (simp_all add: with_efforts_def List.map_filter_simps key_of_with_efforts
         split: option.split)
  then show ?thesis by (simp add: group_keys_def)
qed

lemma group_rows_with_efforts:
  "group_rows (with_efforts selected_stats df) k
     = with_efforts selected_stats (group_rows df k)"
  by (induction df) (simp_all add: group_rows_def with_efforts_def key_of_with_efforts)

lemma mins_group:
  "map mins (with_efforts selected_stats df) = map mins df"
  by (simp add: with_efforts_def mins_with_efforts)

lemma roundNumber_group:
  "map roundNumber (with_efforts selected_stats df) = map roundNumber df"
  by (simp add: with_efforts_def roundNumber_with_efforts)

lemma efforts_group:
  "map effort_row.efforts (with_efforts selected_stats df) = map (row_sum selected_stats) df"
  by (simp add: with_efforts_def round_row.defs effort_row.defs)

lemma key_of_totals_season_of: "key_of_totals (season_of df k) = k"
  by (simp add: key_of_totals_def season_of_def Let_def)

lemma map_key_player_season_stats:
  "map key_of_totals (player_season_stats df) = group_keys df"
  by (simp add: player_season_stats_def key_of_totals_season_of comp_def)

lemma group_rows_nonempty: "k \<in> set (group_keys df) \<Longrightarrow> group_rows df k \<noteq> []"
  by (auto simp: set_group_keys group_rows_def filter_empty_conv)

lemma count_le_length: "count cells \<le> length cells"
  by (simp add: count_def)

lemma count_all_present: "\<forall>c\<in>set cells. c \<noteq> None \<Longrightarrow> count cells = length cells"
  by (simp add: count_def)

lemma season_of_fields:
  "totalMins (season_of (with_efforts selected_stats filtered) k)
           = sum_list (map mins (group_rows filtered k))"
  "efforts (season_of (with_efforts selected_stats filtered) k)
           = sum_list (map (row_sum selected_stats) (group_rows filtered k))"
  "gamesPlayed (season_of (with_efforts selected_stats filtered) k)
           = count (map roundNumber (group_rows filtered k))"
  "efforts_per_min (season_of (with_efforts selected_stats filtered) k)
           = true_div (efforts (season_of (with_efforts selected_stats filtered) k))
               (totalMins (season_of (with_efforts selected_stats filtered) k))"
  by (simp_all add: season_of_def Let_def group_rows_with_efforts mins_group efforts_group
      roundNumber_group)

text \<open>
  C2, amended. With a non-empty selection the page is rendered, and the season frame has
  one row for each key (playerName, teamName, positionName) of the filtered frame, in
  sorted order; rows with a missing key value have no key. For each row of the season
  frame, the rows of its group are those of the filtered frame with its key:
  \<^verbatim>\<open>totalMins\<close> is the \<^verbatim>\<open>int64\<close> sum of their \<^verbatim>\<open>mins\<close> and \<^verbatim>\<open>efforts\<close> the \<^verbatim>\<open>int64\<close> sum of
  their per-game \<^verbatim>\<open>efforts\<close> (the arithmetic sums wrapped into the range of \<^verbatim>\<open>int64\<close>),
  \<^verbatim>\<open>gamesPlayed\<close> is the number of them with a \<^verbatim>\<open>roundNumber\<close>, which is their number when
  none lacks it, and \<^verbatim>\<open>efforts_per_min\<close> is the float quotient of \<^verbatim>\<open>efforts\<close> by
  \<^verbatim>\<open>totalMins\<close>.
\<close>

theorem season_aggregation:
  assumes "selected_stats \<noteq> []"
  shows "\<exists>d. main_content srt filtered selected_stats search_term search_term_season = Rendered d
          \<and> map key_of_totals (season_total d) = sort (remdups (List.map_filter key_of filtered))
          \<and> (\<forall>g\<in>set (season_total d).
                group_rows filtered (key_of_totals g) \<noteq> []
              \<and> totalMins g = sum_list (map mins (group_rows filtered (key_of_totals g)))
              \<and> sint (totalMins g)
                  = signed_take_bit 63
                      (sum_list (map (\<lambda>r. sint (mins r)) (group_rows filtered (key_of_totals g))))
              \<and> efforts g
                  = sum_list (map (row_sum selected_stats) (group_rows filtered (key_of_totals g)))
              \<and> efforts g
                  = sum_list (map effort_row.efforts
                                (group_rows (individual_games d) (key_of_totals g)))
              \<and> sint (efforts g)
                  = signed_take_bit 63
                      (sum_list (map (\<lambda>r. sint (effort_row.efforts r))
                                   (group_rows (individual_games d) (key_of_totals g))))
              \<and> gamesPlayed g
                  = length (filter (\<lambda>r. roundNumber r \<noteq> None)
                              (group_rows filtered (key_of_totals g)))
              \<and> gamesPlayed g \<le> length (group_rows filtered (key_of_totals g))
              \<and> ((\<forall>r\<in>set (group_rows filtered (key_of_totals g)). roundNumber r \<noteq> None)
                   \<longrightarrow> gamesPlayed g = length (group_rows filtered (key_of_totals g)))
              \<and> efforts_per_min g = true_div (efforts g) (totalMins g)
              \<and> (sint (totalMins g) \<noteq> 0 \<longrightarrow>
                   efforts_per_min g
                     = Finite (float64 (float64 (of_int (sint (efforts g)))
                                         / float64 (of_int (sint (totalMins g)))))))"
proof -
  let ?games = "with_efforts selected_stats filtered"
  from main_content_rendered [OF assms] obtain d
    where d: "main_content srt filtered selected_stats search_term search_term_season = Rendered d"
      and games: "individual_games d = ?games"
      and stats: "season_total d = player_season_stats ?games"
    by blast
  have keys: "map key_of_totals (season_total d) = sort (remdups (List.map_filter key_of filtered))"
    by (simp add: stats map_key_player_season_stats group_keys_with_efforts)
      (simp add: group_keys_def)
  have rows: "group_rows filtered (key_of_totals g) \<noteq> []
              \<and> totalMins g = sum_list (map mins (group_rows filtered (key_of_totals g)))
              \<and> sint (totalMins g)
                  = signed_take_bit 63
                      (sum_list (map (\<lambda>r. sint (mins r)) (group_rows filtered (key_of_totals g))))
              \<and> efforts g
                  = sum_list (map (row_sum selected_stats) (group_rows filtered (key_of_totals g)))
              \<and> efforts g
                  = sum_list (map effort_row.efforts
                                (group_rows (individual_games d) (key_of_totals g)))
              \<and> sint (efforts g)
                  = signed_take_bit 63
                      (sum_list (map (\<lambda>r. sint (effort_row.efforts r))
                                   (group_rows (individual_games d) (key_of_totals g))))
              \<and> gamesPlayed g
                  = length (filter (\<lambda>r. roundNumber r \<noteq> None)
                              (group_rows filtered (key_of_totals g)))
              \<and> gamesPlayed g \<le> length (group_rows filtered (key_of_totals g))
              \<and> ((\<forall>r\<in>set (group_rows filtered (key_of_totals g)). roundNumber r \<noteq> None)
                   \<longrightarrow> gamesPlayed g = length (group_rows filtered (key_of_totals g)))
              \<and> efforts_per_min g = true_div (efforts g) (totalMins g)
              \<and> (sint (totalMins g) \<noteq> 0 \<longrightarrow>
                   efforts_per_min g
                     = Finite (float64 (float64 (of_int (sint (efforts g)))
                                         / float64 (of_int (sint (totalMins g))))))"
    if "g \<in> set (season_total d)" for g
  proof -
    from that obtain k where k: "k \<in> set (group_keys filtered)" and g: "g = season_of ?games k"
      by (auto simp: stats player_season_stats_def group_keys_with_efforts)
    have gk: "key_of_totals g = k" by (simp add: g key_of_totals_season_of)
    let ?rows = "group_rows filtered k"
    have mins: "totalMins g = sum_list (map mins ?rows)"
      and eff: "efforts g = sum_list (map (row_sum selected_stats) ?rows)"
      and games_played: "gamesPlayed g = count (map roundNumber ?rows)"
      and epm: "efforts_per_min g = true_div (efforts g) (totalMins g)"
      by (simp_all only: g season_of_fields)
    have eff': "efforts g = sum_list (map effort_row.efforts (group_rows ?games k))"
      by (simp add: eff group_rows_with_efforts efforts_group)
    have "sint (totalMins g) = signed_take_bit 63 (sum_list (map (\<lambda>r. sint (mins r)) ?rows))"
      by (simp add: mins sint_sum_list comp_def)
    moreover have "sint (efforts g)
        = signed_take_bit 63
            (sum_list (map (\<lambda>r. sint (effort_row.efforts r)) (group_rows ?games k)))"
      by (simp add: eff' sint_sum_list comp_def)
    moreover have "gamesPlayed g = length (filter (\<lambda>r. roundNumber r \<noteq> None) ?rows)"
      by (simp add: games_played count_def filter_map comp_def)
    moreover have "gamesPlayed g \<le> length ?rows"
      using count_le_length [of "map roundNumber ?rows"] by (simp add: games_played)
    moreover have "(\<forall>r\<in>set ?rows. roundNumber r \<noteq> None) \<longrightarrow> gamesPlayed g = length ?rows"
      by (simp add: games_played count_all_present)
    moreover have "sint (totalMins g) \<noteq> 0 \<longrightarrow>
        efforts_per_min g
          = Finite (float64 (float64 (of_int (sint (efforts g)))
                              / float64 (of_int (sint (totalMins g)))))"
      by (simp add: epm true_div_def)
    ultimately show ?thesis
      using group_rows_nonempty [OF k] mins eff eff' epm
      by (simp only: gk games) blast
  qed
  show ?thesis
    using d keys rows by blast
qed

lemma true_div_8_150: "true_div 8 150 = Finite (7686143364045647 / 144115188075855872)"
  by code_simp

theorem season_aggregation_witness:
  "[Runs] \<noteq> []
   \<and> (\<exists>d. main_content frame_order example_df [Runs] [] [] = Rendered d
          \<and> map key_of_totals (season_total d)
              = [(''John Smith'', ''Sydney Roosters'', ''Prop''),
                 (''Jon SMITH'', ''Melbourne Storm'', ''Halfback'')]
          \<and> map (\<lambda>g. sint (totalMins g)) (season_total d) = [150, 0]
          \<and> map gamesPlayed (season_total d) = [2, 1]
          \<and> map (\<lambda>g. sint (efforts g)) (season_total d) = [8, 1]
          \<and> map efforts_per_min (season_total d)
              = [Finite (7686143364045647 / 144115188075855872), PosInf])"
proof -
  have stats: "player_season_stats (with_efforts [Runs] example_df)
     = [\<lparr> playerName = ''John Smith'', teamName = ''Sydney Roosters'', positionName = ''Prop'',
          totalMins = 150, gamesPlayed = 2, efforts = 8, efforts_per_min = true_div 8 150 \<rparr>,
        \<lparr> playerName = ''Jon SMITH'', teamName = ''Melbourne Storm'',
          positionName = ''Halfback'',
          totalMins = 0, gamesPlayed = 1, efforts = 1, efforts_per_min = true_div 1 0 \<rparr>]"
    by (simp add: example_df_def add_teamName_def smith_round1_def
      smith_round2_def jon_round1_def team_name_mapping_def team_name_mapping_items_def
      with_efforts_def row_sum_def player_season_stats_def group_keys_def key_of_def
      season_of_def group_rows_def count_def Let_def
      csv_row.defs round_row.defs effort_row.defs)
  have inf: "true_div 1 0 = PosInf"
    by (simp add: true_div_def)
  from season_aggregation [of "[Runs]" frame_order example_df "[]" "[]"]
  obtain d where d: "main_content frame_order example_df [Runs] [] [] = Rendered d"
    by blast
  then have "season_total d = player_season_stats (with_efforts [Runs] example_df)"
    by (auto simp: main_content_def Let_def)
  with d show ?thesis
    by (simp add: stats true_div_8_150 inf key_of_totals_def)
qed

text \<open>
  C2 as stated fails for \<^verbatim>\<open>gamesPlayed\<close> where a \<^verbatim>\<open>roundNumber\<close> cell is empty: the only
  game of the group is not counted.
\<close>

theorem games_played_skips_missing_round:
  "map gamesPlayed (player_season_stats (with_efforts [Runs] [add_teamName unnumbered_round]))
     = [0]
   \<and> length (group_rows [add_teamName unnumbered_round]
               (''Kit Lane'', ''Sydney Roosters'', ''Prop'')) = 1"
  by (simp add: add_teamName_def unnumbered_round_def team_name_mapping_def
      team_name_mapping_items_def with_efforts_def row_sum_def player_season_stats_def
      group_keys_def key_of_def season_of_def group_rows_def count_def Let_def
      csv_row.defs round_row.defs effort_row.defs)

subsection \<open>Players without minutes\<close>

text \<open>
  C6, amended. The division is not guarded. For a season row with \<^verbatim>\<open>totalMins\<close> 0,
  \<^verbatim>\<open>efforts_per_min\<close> is NaN when \<^verbatim>\<open>efforts\<close> is 0 and the infinity with the sign of
  \<^verbatim>\<open>efforts\<close> otherwise; it is never a finite number, zero included, and nothing is
  raised.
\<close>

theorem zero_minutes_efficiency:
  assumes "g \<in> set (player_season_stats df)" and "sint (totalMins g) = 0"
  shows "efforts_per_min g
           = (if 0 < sint (efforts g) then PosInf
              else if sint (efforts g) < 0 then NegInf else NaN)
       \<and> (\<forall>q. efforts_per_min g \<noteq> Finite q)"
proof -
  from assms(1) obtain k where "g = season_of df k"
    by (auto simp: player_season_stats_def)
  with assms(2) show ?thesis
    by (simp add: season_of_def Let_def true_div_def)
qed

theorem zero_minutes_efficiency_witness:
  "season_of (with_efforts [Tackles] [add_teamName jon_round1])
       (''Jon SMITH'', ''Melbourne Storm'', ''Halfback'')
     \<in> set (player_season_stats (with_efforts [Tackles] [add_teamName jon_round1]))
   \<and> sint (totalMins (season_of (with_efforts [Tackles] [add_teamName jon_round1])
                  (''Jon SMITH'', ''Melbourne Storm'', ''Halfback''))) = 0
   \<and> efforts_per_min (season_of (with_efforts [Tackles] [add_teamName jon_round1])
                  (''Jon SMITH'', ''Melbourne Storm'', ''Halfback'')) = NaN"
proof -
  let ?df = "with_efforts [Tackles] [add_teamName jon_round1]"
  let ?g = "season_of ?df (''Jon SMITH'', ''Melbourne Storm'', ''Halfback'')"
  have keys: "group_keys ?df = [(''Jon SMITH'', ''Melbourne Storm'', ''Halfback'')]"
    by (simp add: group_keys_def with_efforts_def add_teamName_def jon_round1_def key_of_def
        team_name_mapping_def team_name_mapping_items_def
        csv_row.defs round_row.defs effort_row.defs)
  have mem: "?g \<in> set (player_season_stats ?df)"
    by (simp add: player_season_stats_def keys)
  have zero: "sint (totalMins ?g) = 0" and none: "sint (efforts ?g) = 0"
    by (simp_all add: season_of_def Let_def group_rows_def with_efforts_def add_teamName_def
        jon_round1_def key_of_def team_name_mapping_def team_name_mapping_items_def row_sum_def
        csv_row.defs round_row.defs effort_row.defs)
  show ?thesis
    using mem zero none zero_minutes_efficiency [OF mem zero] by simp
qed

text \<open>
  C6 as stated fails for a player with one run in no minutes: the value is the positive
  infinity, not NaN.
\<close>

theorem zero_minutes_gives_infinity:
  "map (\<lambda>g. sint (totalMins g))
     (player_season_stats (with_efforts [Runs] [add_teamName jon_round1])) = [0]
   \<and> map efforts_per_min (player_season_stats (with_efforts [Runs] [add_teamName jon_round1]))
       = [PosInf]
   \<and> PosInf \<noteq> NaN"
  by (simp add: player_season_stats_def season_of_def Let_def group_rows_def group_keys_def
      with_efforts_def add_teamName_def jon_round1_def key_of_def team_name_mapping_def
      team_name_mapping_items_def row_sum_def true_div_def
      csv_row.defs round_row.defs effort_row.defs)

subsection \<open>The filters\<close>

lemma mixed_remdups: "mixed (remdups cells) = mixed cells"
proof -
  have "filter (\<lambda>x. x \<noteq> None) (remdups cells) = [] \<longleftrightarrow> filter (\<lambda>x. x \<noteq> None) cells = []"
    by (simp add: filter_empty_conv)
  then show ?thesis by (simp add: mixed_def)
qed

lemma sorted_unique_eq:
  "sorted_unique cells = (if mixed cells then Inl TypeError else Inr (sort (remdups cells)))"
proof -
  have "sorted_unique cells
      = (if mixed (remdups cells) then Inl TypeError else Inr (sort (remdups cells)))"
    by (simp add: sorted_unique_def mixed_def Let_def)
  then show ?thesis by (simp only: mixed_remdups)
qed

lemma isin_options:
  "r \<in> set df \<Longrightarrow>
   isin (f r) (if sel = [] then sort (remdups (map f df)) else sel)
     \<longleftrightarrow> (sel = [] \<or> f r \<in> set sel)"
  by (auto simp: isin_def)

lemma by_position_team_eq:
  "filter (\<lambda>r. isin (csv_row.positionName r)
                 (if selected_positions sel = []
                  then sort (remdups (map csv_row.positionName df))
                  else selected_positions sel)
              \<and> isin (round_row.teamName r)
                 (if selected_teams sel = []
                  then sort (remdups (map round_row.teamName df))
                  else selected_teams sel)) df
   = filter (selected_by_position_and_team sel) df"
proof (rule filter_cong [OF refl])
  fix r assume "r \<in> set df"
  then show "(isin (csv_row.positionName r)
                 (if selected_positions sel = []
                  then sort (remdups (map csv_row.positionName df))
                  else selected_positions sel)
              \<and> isin (round_row.teamName r)
                 (if selected_teams sel = []
                  then sort (remdups (map round_row.teamName df))
                  else selected_teams sel))
           = selected_by_position_and_team sel r"
    by (simp only: isin_options selected_by_position_and_team_def)
qed

lemma filter_players_eq:
  "selected_players sel \<noteq> [] \<Longrightarrow>
   filter (\<lambda>r. isin (csv_row.playerName r) (selected_players sel))
     (filter (selected_by_position_and_team sel) df)
   = filter (selected_by sel) df"
  unfolding filter_filter
  by (rule filter_cong [OF refl])
    (auto simp: isin_def selected_by_def selected_by_position_and_team_def)

lemma filter_no_players_eq:
  "selected_players sel = [] \<Longrightarrow>
   filter (selected_by_position_and_team sel) df = filter (selected_by sel) df"
  by (rule filter_cong [OF refl]) (simp add: selected_by_def selected_by_position_and_team_def)

lemma filtered_df_eq:
  "filtered_df df sel
     = (if options_sortable df sel then Inr (filter (selected_by sel) df) else Inl TypeError)"
proof (cases "mixed (map csv_row.positionName df)")
  case True
  then show ?thesis
    by (simp add: filtered_df_def all_positions_def sorted_unique_eq options_sortable_def)
next
  case positions: False
  show ?thesis
  proof (cases "mixed (map round_row.teamName df)")
    case True
    then show ?thesis
      using positions
      by (simp add: filtered_df_def all_positions_def all_teams_def sorted_unique_eq
          options_sortable_def Let_def)
  next
    case teams: False
    have step: "filtered_df df sel
        = (case all_players (filter (selected_by_position_and_team sel) df) of
             Inl e \<Rightarrow> Inl e
           | Inr player_options \<Rightarrow>
               if selected_players sel \<noteq> []
               then Inr (filter (\<lambda>r. isin (csv_row.playerName r) (selected_players sel))
                           (filter (selected_by_position_and_team sel) df))
               else Inr (filter (selected_by_position_and_team sel) df))"
      using positions teams
      by (simp only: filtered_df_def all_positions_def all_teams_def sorted_unique_eq
          Let_def if_False sum.case by_position_team_eq)
    show ?thesis
    proof (cases "mixed (map csv_row.playerName (filter (selected_by_position_and_team sel) df))")
      case True
      then show ?thesis
        by (simp add: step all_players_def sorted_unique_eq options_sortable_def)
    next
      case False
      then have "options_sortable df sel"
        using positions teams by (simp add: options_sortable_def)
      moreover have "filtered_df df sel = Inr (filter (selected_by sel) df)"
      proof (cases "selected_players sel = []")
        case True
        then show ?thesis
          using False by (simp add: step all_players_def sorted_unique_eq filter_no_players_eq)
      next
        case nonempty: False
        then show ?thesis
          using False filter_players_eq [OF nonempty, of df]
          by (simp add: step all_players_def sorted_unique_eq)
      qed
      ultimately show ?thesis by simp
    qed
  qed
qed

lemma filter_no_selection: "filter (selected_by no_selection) df = df"
  by (simp add: selected_by_def no_selection_def)

lemma options_sortable_no_selection:
  "options_sortable df no_selection
     = (\<not> mixed (map csv_row.positionName df) \<and> \<not> mixed (map round_row.teamName df)
        \<and> \<not> mixed (map csv_row.playerName df))"
  by (simp add: options_sortable_def selected_by_position_and_team_def no_selection_def)

text \<open>
  C3, amended. The sidebar sorts three columns: the positions of the frame, its team
  names, and the player names of the rows selected by position and team. When one of
  them holds a missing value beside a present one, the script raises \<^verbatim>\<open>TypeError\<close> and
  there is no filter output. Otherwise nothing is raised, and the output is the rows of
  the frame, in their order, whose position is selected (or no position is), whose team
  name is selected (or no team is) and whose player name is selected (or no player is);
  with nothing selected the output is the frame itself.
\<close>

theorem filter_inclusion:
  "filtered_df df sel
     = (if options_sortable df sel then Inr (filter (selected_by sel) df) else Inl TypeError)
   \<and> (options_sortable df sel \<longrightarrow>
        (\<exists>out. filtered_df df sel = Inr out
           \<and> (\<forall>r. r \<in> set out \<longleftrightarrow>
                 r \<in> set df
                 \<and> (selected_positions sel = []
                    \<or> csv_row.positionName r \<in> set (selected_positions sel))
                 \<and> (selected_teams sel = []
                    \<or> round_row.teamName r \<in> set (selected_teams sel))
                 \<and> (selected_players sel = []
                    \<or> csv_row.playerName r \<in> set (selected_players sel)))))
   \<and> filtered_df df no_selection
       = (if mixed (map csv_row.positionName df) \<or> mixed (map round_row.teamName df)
             \<or> mixed (map csv_row.playerName df)
          then Inl TypeError else Inr df)"
proof -
  have "filtered_df df no_selection
       = (if mixed (map csv_row.positionName df) \<or> mixed (map round_row.teamName df)
             \<or> mixed (map csv_row.playerName df)
          then Inl TypeError else Inr df)"
    by (simp add: filtered_df_eq options_sortable_no_selection filter_no_selection)
  moreover have "\<forall>r. r \<in> set (filter (selected_by sel) df) \<longleftrightarrow>
                 r \<in> set df
                 \<and> (selected_positions sel = []
                    \<or> csv_row.positionName r \<in> set (selected_positions sel))
                 \<and> (selected_teams sel = []
                    \<or> round_row.teamName r \<in> set (selected_teams sel))
                 \<and> (selected_players sel = []
                    \<or> csv_row.playerName r \<in> set (selected_players sel))"
    by (simp add: selected_by_def)
  ultimately show ?thesis
    by (simp add: filtered_df_eq)
qed

lemma example_df_sortable: "options_sortable example_df sel"
  by (simp add: options_sortable_def mixed_def example_df_def add_teamName_def
      smith_round1_def smith_round2_def jon_round1_def team_name_mapping_def
      team_name_mapping_items_def csv_row.defs round_row.defs filter_empty_conv)

theorem filter_inclusion_witness:
  "options_sortable example_df roosters_only
   \<and> filtered_df example_df roosters_only = Inr (map add_teamName [smith_round1, smith_round2])
   \<and> filtered_df example_df no_selection = Inr example_df"
proof -
  have rows: "filter (selected_by roosters_only) example_df
                = map add_teamName [smith_round1, smith_round2]"
    by (simp add: selected_by_def roosters_only_def example_df_def add_teamName_def
        smith_round1_def smith_round2_def jon_round1_def team_name_mapping_def
        team_name_mapping_items_def csv_row.defs round_row.defs)
  have "filtered_df example_df no_selection = Inr example_df"
    using filter_inclusion [of example_df no_selection] example_df_sortable [of no_selection]
    by (simp add: filter_no_selection)
  then show ?thesis
    using filter_inclusion [of example_df roosters_only] example_df_sortable [of roosters_only]
    by (simp add: rows)
qed

text \<open>
  C3 as stated fails on a frame with a row whose team id is not in the mapping beside a
  row whose team id is: with nothing selected the script raises \<^verbatim>\<open>TypeError\<close> at the team
  options, and returns no frame.
\<close>

theorem filter_raises_on_mixed_team_names:
  "filtered_df (map add_teamName [smith_round1, unmapped_round1]) no_selection = Inl TypeError"
  by (simp add: filtered_df_def all_positions_def all_teams_def sorted_unique_def Let_def
      add_teamName_def smith_round1_def unmapped_round1_def team_name_mapping_def
      team_name_mapping_items_def csv_row.defs round_row.defs)

subsection \<open>The guard on the selected statistics\<close>

lemma fst_load_data: "fst (load_data csv) = map add_teamName csv"
  by (simp add: load_data_def Let_def)

text \<open>
  C7, amended. With no statistic selected the main content area is the warning alone:
  no effort, season total, leaderboard or table is computed, whatever the frame. The
  script reaches the guard only when the sidebar has raised nothing: on a dataset whose
  sidebar options cannot be sorted it ends with \<^verbatim>\<open>TypeError\<close> before the guard, and shows
  no warning.
\<close>

theorem empty_selection_warns:
  "main_content srt filtered [] search_term search_term_season
     = Warning ''Please select at least one statistic to analyze.''
   \<and> app srt csv sel [] search_term search_term_season
       = (if options_sortable (map add_teamName csv) sel
          then Inr (Warning ''Please select at least one statistic to analyze.'')
          else Inl TypeError)"
  by (simp add: main_content_def app_def fst_load_data filtered_df_eq)

theorem empty_selection_warns_witness:
  "app frame_order [smith_round1, jon_round1, smith_round2] roosters_only [] [] []
     = Inr (Warning ''Please select at least one statistic to analyze.'')"
  using empty_selection_warns [of frame_order "[]" "[]" "[]"
      "[smith_round1, jon_round1, smith_round2]" roosters_only]
    example_df_sortable [of roosters_only]
  by (simp add: example_df_def)

text \<open>
  C7 as stated fails on a dataset with a row whose team id is not in the mapping beside
  a row whose team id is: with no statistic selected the script raises \<^verbatim>\<open>TypeError\<close> and
  shows no warning.
\<close>

theorem empty_selection_raises_before_the_guard:
  "app frame_order [unmapped_round1, smith_round2] no_selection [] [] [] = Inl TypeError"
  by (simp add: app_def load_data_def filtered_df_def all_positions_def all_teams_def
      sorted_unique_def Let_def
      add_teamName_def smith_round2_def unmapped_round1_def team_name_mapping_def
      team_name_mapping_items_def csv_row.defs round_row.defs)

subsection \<open>Team ids outside the mapping\<close>

lemma teamName_add_teamName:
  "round_row.teamName (add_teamName r) = team_name_mapping (teamId r)"
  by (simp add: add_teamName_def csv_row.defs round_row.defs)

lemma truncate_add_teamName: "csv_row.truncate (add_teamName r) = r"
  by (simp add: add_teamName_def csv_row.defs round_row.defs)

lemma key_of_missing_team: "round_row.teamName r = None \<Longrightarrow> key_of r = None"
  by (simp add: key_of_def split: option.split)

lemma mixed_team_names:
  assumes "r \<in> set csv" and "team_name_mapping (teamId r) = None"
    and "r' \<in> set csv" and "team_name_mapping (teamId r') \<noteq> None"
  shows "mixed (map round_row.teamName (map add_teamName csv))"
proof -
  have "None \<in> set (map round_row.teamName (map add_teamName csv))"
    using assms(1,2) by (force simp: teamName_add_teamName)
  moreover have "round_row.teamName (add_teamName r')
      \<in> set (filter (\<lambda>x. x \<noteq> None) (map round_row.teamName (map add_teamName csv)))"
    using assms(3,4) by (simp add: teamName_add_teamName)
  then have "filter (\<lambda>x. x \<noteq> None) (map round_row.teamName (map add_teamName csv)) \<noteq> []"
    by (metis empty_iff empty_set)
  ultimately show ?thesis by (simp only: mixed_def) simp
qed

text \<open>
  C8, amended. The mapping has 17 entries. For a row of the CSV file whose team id is
  none of them, loading raises nothing: it gives the row the missing team name and
  keeps it, unchanged otherwise, in the loaded frame; the row has no group key, so that
  no season row counts it. Filtering fails with \<^verbatim>\<open>TypeError\<close> as soon as another row of
  the file has a mapped team id, and whenever one of the three sidebar columns holds a
  missing value beside a present one. When it does not fail, the row is in the output if
  and only if the selection asks for it, its missing team name counting as a team name.
\<close>

theorem unmapped_team_id:
  assumes "r \<in> set csv" and "team_name_mapping (teamId r) = None"
  shows "length team_name_mapping_items = 17
       \<and> fst (load_data csv) = map add_teamName csv
       \<and> length (fst (load_data csv)) = length csv
       \<and> add_teamName r \<in> set (fst (load_data csv))
       \<and> round_row.teamName (add_teamName r) = None
       \<and> csv_row.truncate (add_teamName r) = r
       \<and> key_of (add_teamName r) = None
       \<and> filtered_df (fst (load_data csv)) sel
           = (if options_sortable (fst (load_data csv)) sel
              then Inr (filter (selected_by sel) (fst (load_data csv)))
              else Inl TypeError)
       \<and> (\<forall>out. filtered_df (fst (load_data csv)) sel = Inr out \<longrightarrow>
             (add_teamName r \<in> set out \<longleftrightarrow>
                (selected_positions sel = []
                   \<or> csv_row.positionName r \<in> set (selected_positions sel))
                \<and> (selected_teams sel = [] \<or> None \<in> set (selected_teams sel))
                \<and> (selected_players sel = []
                   \<or> csv_row.playerName r \<in> set (selected_players sel))))
       \<and> ((\<exists>r'\<in>set csv. team_name_mapping (teamId r') \<noteq> None) \<longrightarrow>
             filtered_df (fst (load_data csv)) sel = Inl TypeError)"
proof -
  have name: "round_row.teamName (add_teamName r) = None"
    by (simp add: teamName_add_teamName assms(2))
  have mem: "add_teamName r \<in> set (map add_teamName csv)"
    using assms(1) by simp
  have position: "csv_row.positionName (add_teamName r) = csv_row.positionName r"
    and player: "csv_row.playerName (add_teamName r) = csv_row.playerName r"
    by (simp_all add: add_teamName_def csv_row.defs round_row.defs)
  have out: "\<forall>out. filtered_df (map add_teamName csv) sel = Inr out \<longrightarrow>
             (add_teamName r \<in> set out \<longleftrightarrow>
                (selected_positions sel = []
                   \<or> csv_row.positionName r \<in> set (selected_positions sel))
                \<and> (selected_teams sel = [] \<or> None \<in> set (selected_teams sel))
                \<and> (selected_players sel = []
                   \<or> csv_row.playerName r \<in> set (selected_players sel)))"
    using mem
    by (auto simp: filtered_df_eq selected_by_def name position player split: if_splits)
  have raises: "filtered_df (map add_teamName csv) sel = Inl TypeError"
    if "\<exists>r'\<in>set csv. team_name_mapping (teamId r') \<noteq> None"
  proof -
    from that obtain r' where "r' \<in> set csv" "team_name_mapping (teamId r') \<noteq> None"
      by blast
    from mixed_team_names [OF assms this] show ?thesis
      by (simp add: filtered_df_eq options_sortable_def)
  qed
  show ?thesis
    using assms(1) out raises
    by (simp only: fst_load_data name truncate_add_teamName key_of_missing_team [OF name]
        filtered_df_eq)
      (simp add: team_name_mapping_items_def)
qed

theorem unmapped_team_id_witness:
  "unmapped_round1 \<in> set [unmapped_round1] \<and> team_name_mapping (teamId unmapped_round1) = None
   \<and> round_row.teamName (add_teamName unmapped_round1) = None
   \<and> filtered_df (fst (load_data [unmapped_round1])) missing_team_only
       = Inr [add_teamName unmapped_round1]"
proof -
  have unmapped: "team_name_mapping (teamId unmapped_round1) = None"
    by (simp add: unmapped_round1_def team_name_mapping_def team_name_mapping_items_def)
  have sortable: "options_sortable (map add_teamName [unmapped_round1]) missing_team_only"
    by (simp add: options_sortable_def mixed_def add_teamName_def unmapped_round1_def
        team_name_mapping_def team_name_mapping_items_def csv_row.defs round_row.defs)
  show ?thesis
    using unmapped sortable
      unmapped_team_id [of unmapped_round1 "[unmapped_round1]" missing_team_only]
    by (simp add: fst_load_data selected_by_def missing_team_only_def teamName_add_teamName)
qed

text \<open>
  C8 as stated fails when a row with a mapped team id stands beside the unmapped one:
  the script raises \<^verbatim>\<open>TypeError\<close> while it builds the team options.
\<close>

theorem app_raises_on_unmapped_team_id:
  "app frame_order [unmapped_round1, smith_round2] no_selection available_stats [] []
     = Inl TypeError"
  by (simp add: app_def load_data_def filtered_df_def all_positions_def all_teams_def
      sorted_unique_def Let_def
      add_teamName_def smith_round2_def unmapped_round1_def team_name_mapping_def
      team_name_mapping_items_def csv_row.defs round_row.defs)

subsection \<open>Leaderboards\<close>

lemma length_ranked: "length (ranked df) = length df"
  by (simp add: ranked_def del: upt_Suc)

lemma map_fst_ranked: "map fst (ranked df) = [1 ..< Suc (length df)]"
  by (simp add: ranked_def del: upt_Suc)

lemma map_snd_ranked: "map snd (ranked df) = df"
  by (simp add: ranked_def del: upt_Suc)

lemma nth_ranked: "i < length df \<Longrightarrow> ranked df ! i = (Suc i, df ! i)"
  by (simp add: ranked_def del: upt_Suc)

lemma sort_values_result_length:
  "sort_values_result before df out \<Longrightarrow> length out = length df"
  by (metis sort_values_result_def size_mset)

lemma sort_values_result_set:
  "sort_values_result before df out \<Longrightarrow> set out = set df"
  by (metis sort_values_result_def set_mset_mset)

lemma efforts_column_sorted:
  assumes "sort_values_result efforts_descending stats out"
  shows "map (\<lambda>r. sint (efforts r)) out = rev (sort (map (\<lambda>r. sint (efforts r)) stats))"
proof -
  have "sorted_wrt (\<lambda>a b. sint (efforts b) \<le> sint (efforts a)) out"
    using assms by (simp add: sort_values_result_def efforts_descending_def [abs_def])
  then have "sorted_wrt (\<lambda>x y. y \<le> x) (map (\<lambda>r. sint (efforts r)) out)"
    by (simp add: sorted_wrt_map)
  then have "sorted (rev (map (\<lambda>r. sint (efforts r)) out))"
    by (simp add: sorted_wrt_rev)
  moreover have "mset (rev (map (\<lambda>r. sint (efforts r)) out))
                   = mset (map (\<lambda>r. sint (efforts r)) stats)"
    using assms by (simp add: sort_values_result_def)
  ultimately have "sort (map (\<lambda>r. sint (efforts r)) stats)
                     = rev (map (\<lambda>r. sint (efforts r)) out)"
    by (metis properties_for_sort)
  then show ?thesis by simp
qed

lemma ranked_rows:
  fixes out :: "'a list"
  shows "length (ranked (take 10 out)) = min 10 (length out)"
    and "map fst (ranked (take 10 out)) = [1 ..< Suc (min 10 (length out))]"
    and "map snd (ranked (take 10 out)) = take 10 out"
    and "\<forall>i<min 10 (length out). ranked (take 10 out) ! i = (Suc i, out ! i)"
  by (simp_all add: length_ranked map_fst_ranked map_snd_ranked nth_ranked min.commute
      del: upt_Suc)

text \<open>
  C5, amended. Whatever the sorting routine does with ties, as long as it returns the
  rows of the season frame in descending order of \<^verbatim>\<open>efforts\<close>: the top-by-total
  leaderboard has the first 10 rows of that order (all of them when there are fewer),
  never more than 10; the row at place \<open>i\<close> has the rank \<open>i\<close>, counted from 1; no row
  stands above a row with greater \<^verbatim>\<open>efforts\<close>; its rows are rows of the season frame, and
  its \<^verbatim>\<open>efforts\<close> column is the 10 greatest values of the frame in descending order.
  Which of several rows with equal \<^verbatim>\<open>efforts\<close> comes first is not fixed: they need not
  keep the order they have in the frame.
\<close>

theorem top_players_sorted:
  assumes "sort_values_result efforts_descending stats (srt efforts_descending stats)"
  shows "length (top_players srt stats) = min 10 (length stats)
       \<and> length (top_players srt stats) \<le> 10
       \<and> map fst (top_players srt stats) = [1 ..< Suc (min 10 (length stats))]
       \<and> map snd (top_players srt stats) = take 10 (srt efforts_descending stats)
       \<and> (\<forall>i<min 10 (length stats).
            top_players srt stats ! i = (Suc i, srt efforts_descending stats ! i))
       \<and> sorted_wrt (\<lambda>a b. sint (efforts b) \<le> sint (efforts a))
           (map snd (top_players srt stats))
       \<and> mset (map snd (top_players srt stats)) \<subseteq># mset stats
       \<and> map (\<lambda>p. sint (efforts (snd p))) (top_players srt stats)
           = take 10 (rev (sort (map (\<lambda>r. sint (efforts r)) stats)))"
proof -
  let ?s = "srt efforts_descending stats"
  have len: "length ?s = length stats"
    using assms by (rule sort_values_result_length)
  have snd: "map snd (top_players srt stats) = take 10 ?s"
    by (simp add: top_players_def map_snd_ranked)
  have "sorted_wrt (\<lambda>a b. sint (efforts b) \<le> sint (efforts a)) ?s"
    using assms by (simp add: sort_values_result_def efforts_descending_def [abs_def])
  then have sorted: "sorted_wrt (\<lambda>a b. sint (efforts b) \<le> sint (efforts a)) (take 10 ?s)"
    by (rule sorted_wrt_take)
  have "mset (take 10 ?s) \<subseteq># mset ?s"
    by (metis append_take_drop_id mset_append mset_subset_eq_add_left)
  then have sub: "mset (take 10 ?s) \<subseteq># mset stats"
    using assms by (simp add: sort_values_result_def)
  have "map (\<lambda>p. sint (efforts (snd p))) (top_players srt stats)
          = map (\<lambda>r. sint (efforts r)) (map snd (top_players srt stats))"
    by simp
  also have "\<dots> = take 10 (map (\<lambda>r. sint (efforts r)) ?s)"
    by (simp only: snd take_map)
  finally have col: "map (\<lambda>p. sint (efforts (snd p))) (top_players srt stats)
                     = take 10 (rev (sort (map (\<lambda>r. sint (efforts r)) stats)))"
    by (simp only: efforts_column_sorted [OF assms])
  have n: "length (top_players srt stats) = min 10 (length stats)"
    and ranks: "map fst (top_players srt stats) = [1 ..< Suc (min 10 (length stats))]"
    and places: "\<forall>i<min 10 (length stats). top_players srt stats ! i = (Suc i, ?s ! i)"
    using ranked_rows(1,2,4) [of ?s] by (simp_all only: top_players_def len)
  show ?thesis
    using sorted sub col n ranks places by (simp only: snd) simp
qed

lemma mset_insert_by: "mset (insert_by before x xs) = add_mset x (mset xs)"
  by (induction xs) simp_all

lemma set_insert_by: "set (insert_by before x xs) = insert x (set xs)"
  by (induction xs) auto

lemma sorted_insert_by:
  assumes total: "\<And>a b. before a b \<or> before b a"
    and trans: "\<And>a b c. before a b \<Longrightarrow> before b c \<Longrightarrow> before a c"
    and "sorted_wrt before xs"
  shows "sorted_wrt before (insert_by before x xs)"
  using assms(3)
proof (induction xs)
  case Nil
  then show ?case by simp
next
  case (Cons y ys)
  show ?case
  proof (cases "before x y")
    case True
    then show ?thesis
      using Cons.prems trans by auto
  next
    case False
    then have "before y x" using total by blast
    then show ?thesis
      using Cons False by (auto simp: set_insert_by)
  qed
qed

lemma insertion_sort_result:
  assumes total: "\<And>a b. before a b \<or> before b a"
    and trans: "\<And>a b c. before a b \<Longrightarrow> before b c \<Longrightarrow> before a c"
  shows "sort_values_result before df (insertion_sort before df)"
proof -
  have "mset (foldr (insert_by before) df []) = mset df
        \<and> sorted_wrt before (foldr (insert_by before) df [])"
    by (induction df) (simp_all add: mset_insert_by sorted_insert_by [OF total trans])
  then show ?thesis
    by (simp add: sort_values_result_def insertion_sort_def)
qed

lemma efforts_descending_total: "efforts_descending a b \<or> efforts_descending b a"
  by (auto simp: efforts_descending_def)

lemma efforts_descending_trans:
  "efforts_descending a b \<Longrightarrow> efforts_descending b c \<Longrightarrow> efforts_descending a c"
  by (simp add: efforts_descending_def)

lemma float_le_total: "x \<noteq> NaN \<Longrightarrow> y \<noteq> NaN \<Longrightarrow> float_le x y \<or> float_le y x"
  by (cases x; cases y) auto

lemma float_le_trans: "float_le x y \<Longrightarrow> float_le y z \<Longrightarrow> float_le x z"
  by (cases x; cases y; cases z) auto

lemma float_le_not_NaN: "float_le x y \<Longrightarrow> x \<noteq> NaN \<and> y \<noteq> NaN"
  by (cases x; cases y) auto

lemma efforts_per_min_descending_total:
  "efforts_per_min_descending a b \<or> efforts_per_min_descending b a"
  using float_le_total [of "efforts_per_min a" "efforts_per_min b"]
  by (auto simp: efforts_per_min_descending_def)

lemma efforts_per_min_descending_trans:
  assumes "efforts_per_min_descending a b" and "efforts_per_min_descending b c"
  shows "efforts_per_min_descending a c"
proof (cases "efforts_per_min c = NaN")
  case True
  then show ?thesis by (simp add: efforts_per_min_descending_def)
next
  case False
  with assms(2) have cb: "float_le (efforts_per_min c) (efforts_per_min b)"
    by (simp add: efforts_per_min_descending_def)
  then have "efforts_per_min b \<noteq> NaN" using float_le_not_NaN by blast
  with assms(1) have "float_le (efforts_per_min b) (efforts_per_min a)"
    by (simp add: efforts_per_min_descending_def)
  with cb show ?thesis
    using float_le_trans by (auto simp: efforts_per_min_descending_def)
qed

lemma insertion_sort_efforts:
  "sort_values_result efforts_descending df (insertion_sort efforts_descending df)"
proof (rule insertion_sort_result)
  show "efforts_descending a b \<or> efforts_descending b a" for a b
    by (rule efforts_descending_total)
  show "efforts_descending a b \<Longrightarrow> efforts_descending b c \<Longrightarrow> efforts_descending a c" for a b c
    by (rule efforts_descending_trans)
qed

lemma insertion_sort_efforts_per_min:
  "sort_values_result efforts_per_min_descending df
     (insertion_sort efforts_per_min_descending df)"
proof (rule insertion_sort_result)
  show "efforts_per_min_descending a b \<or> efforts_per_min_descending b a" for a b
    by (rule efforts_per_min_descending_total)
  show "efforts_per_min_descending a b \<Longrightarrow> efforts_per_min_descending b c
          \<Longrightarrow> efforts_per_min_descending a c" for a b c
    by (rule efforts_per_min_descending_trans)
qed

theorem top_players_sorted_witness:
  "sort_values_result efforts_descending twelve_players
     (insertion_sort efforts_descending twelve_players)
   \<and> map (\<lambda>p. sint (efforts (snd p))) (top_players insertion_sort twelve_players)
       = [11, 10, 9, 8, 7, 6, 5, 4, 3, 2]
   \<and> map fst (top_players insertion_sort twelve_players) = [1, 2, 3, 4, 5, 6, 7, 8, 9, 10]"
proof -
  have efforts: "map (\<lambda>r. sint (efforts r)) twelve_players
                   = [0, 7, 2, 9, 4, 11, 6, 1, 8, 3, 10, 5]"
    by (simp add: twelve_players_def aggregate_def)
  have sorted: "sort [0, 7, 2, 9, 4, 11, 6, 1, 8, 3, 10, 5 :: int]
                  = [0, 1, 2, 3, 4, 5, 6, 7, 8, 9, 10, 11]"
    by simp
  have upt: "[Suc 0 ..< 11] = [Suc 0, 2, 3, 4, 5, 6, 7, 8, 9, 10]"
    by code_simp
  have len: "length twelve_players = 12"
    by (simp add: twelve_players_def)
  show ?thesis
    using top_players_sorted [where srt = insertion_sort and stats = twelve_players,
            OF insertion_sort_efforts]
      insertion_sort_efforts [of twelve_players]
    by (simp add: efforts sorted len upt del: upt_Suc)
qed

lemma nargsort_descending_tied: "nargsort_descending [3, 8, 40, 40] = [3, 2, 1, 0]"
  by code_simp

lemma tied_season:
  "map (\<lambda>g. (totals_row.playerName g, sint (efforts g)))
     (player_season_stats (with_efforts [Runs] (map add_teamName tied_rounds)))
   = [(''Abe Able'', 3), (''Ben Baker'', 8), (''Cam Cole'', 40), (''Dan Dale'', 40)]"
  by (simp add: tied_rounds_def round_of_def add_teamName_def team_name_mapping_def
      team_name_mapping_items_def with_efforts_def row_sum_def player_season_stats_def
      group_keys_def key_of_def season_of_def group_rows_def Let_def
      csv_row.defs round_row.defs effort_row.defs)

text \<open>
  C5 as stated asks for the tied rows in frame order. \<^verbatim>\<open>sort_values\<close> is called with
  its default \<^verbatim>\<open>kind='quicksort'\<close>, which promises no such thing. Four players with the
  efforts 3, 8, 40 and 40 stand in the season frame in the order of their names; on the
  leaderboard, sorted as NumPy sorts a short column on a processor with AVX-512, Dan Dale
  stands above Cam Cole, who precedes him in the frame with the same \<^verbatim>\<open>efforts\<close>.
\<close>

theorem top_players_ties_reordered:
  "map (\<lambda>g. (totals_row.playerName g, sint (efforts g)))
     (player_season_stats (with_efforts [Runs] (map add_teamName tied_rounds)))
     = [(''Abe Able'', 3), (''Ben Baker'', 8), (''Cam Cole'', 40), (''Dan Dale'', 40)]
   \<and> map (\<lambda>p. (fst p, totals_row.playerName (snd p), sint (efforts (snd p))))
       (top_players quicksort_by_efforts
          (player_season_stats (with_efforts [Runs] (map add_teamName tied_rounds))))
     = [(1, ''Dan Dale'', 40), (2, ''Cam Cole'', 40), (3, ''Ben Baker'', 8),
        (4, ''Abe Able'', 3)]"
proof -
  let ?stats = "player_season_stats (with_efforts [Runs] (map add_teamName tied_rounds))"
  have len: "length ?stats = 4"
    using arg_cong [OF tied_season, of length] by simp
  have col: "map (\<lambda>r. sint (efforts r)) ?stats = [3, 8, 40, 40]"
    using arg_cong [OF tied_season, of "map snd"] by (simp add: comp_def)
  have names: "map totals_row.playerName ?stats
                 = [''Abe Able'', ''Ben Baker'', ''Cam Cole'', ''Dan Dale'']"
    using arg_cong [OF tied_season, of "map fst"] by (simp add: comp_def)
  have sorted: "quicksort_by_efforts efforts_descending ?stats
                  = [?stats ! 3, ?stats ! 2, ?stats ! 1, ?stats ! 0]"
    by (simp add: quicksort_by_efforts_def len col nargsort_descending_tied)
  have nth: "totals_row.playerName (?stats ! i) = map totals_row.playerName ?stats ! i"
    "sint (efforts (?stats ! i)) = map (\<lambda>r. sint (efforts r)) ?stats ! i"
    if "i < 4" for i
    using that by (simp_all only: nth_map len)
  have "map (\<lambda>p. (fst p, totals_row.playerName (snd p), sint (efforts (snd p))))
       (top_players quicksort_by_efforts ?stats)
     = [(1, ''Dan Dale'', 40), (2, ''Cam Cole'', 40), (3, ''Ben Baker'', 8),
        (4, ''Abe Able'', 3)]"
    unfolding top_players_def sorted
    by (simp add: ranked_def upt_rec [of "Suc 0"] upt_rec [of "Suc (Suc _)"] nth
        del: upt_Suc)
      (simp add: names col)
  with tied_season show ?thesis by simp
qed

lemma snd_efficient_players:
  "map snd (efficient_players srt stats)
     = take 10 (srt efforts_per_min_descending
                  (filter (\<lambda>r. min_mins \<le> sint (totalMins r)) stats))"
  by (simp add: efficient_players_def map_snd_ranked)

text \<open>
  C4. The threshold is 80 minutes. The top-by-efficiency leaderboard has at most 10
  rows; each is a row of the season frame with \<^verbatim>\<open>totalMins\<close> at least 80, and no row
  with fewer minutes is in it; its rows stand in descending order of
  \<^verbatim>\<open>efforts_per_min\<close>: of two finite values the later one is not the greater.
\<close>

theorem efficient_players_qualified:
  assumes "sort_values_result efforts_per_min_descending
             (filter (\<lambda>r. min_mins \<le> sint (totalMins r)) stats)
             (srt efforts_per_min_descending
                (filter (\<lambda>r. min_mins \<le> sint (totalMins r)) stats))"
  shows "min_mins = 80
       \<and> length (efficient_players srt stats) \<le> 10
       \<and> (\<forall>r\<in>set (map snd (efficient_players srt stats)).
             r \<in> set stats \<and> 80 \<le> sint (totalMins r))
       \<and> (\<forall>r\<in>set stats. sint (totalMins r) < 80 \<longrightarrow>
             r \<notin> set (map snd (efficient_players srt stats)))
       \<and> sorted_wrt efforts_per_min_descending (map snd (efficient_players srt stats))
       \<and> (\<forall>i j a b. i < j \<and> j < length (efficient_players srt stats)
              \<and> efforts_per_min (snd (efficient_players srt stats ! i)) = Finite a
              \<and> efforts_per_min (snd (efficient_players srt stats ! j)) = Finite b
            \<longrightarrow> b \<le> a)"
proof -
  let ?q = "filter (\<lambda>r. min_mins \<le> sint (totalMins r)) stats"
  let ?s = "srt efforts_per_min_descending ?q"
  let ?top = "map snd (efficient_players srt stats)"
  have top: "?top = take 10 ?s"
    by (rule snd_efficient_players)
  have len: "length (efficient_players srt stats) \<le> 10"
    by (simp add: efficient_players_def length_ranked)
  have "set ?top \<subseteq> set ?s"
    unfolding top by (rule set_take_subset)
  also have "set ?s = set ?q"
    using assms by (rule sort_values_result_set)
  finally have sub: "set ?top \<subseteq> {r \<in> set stats. 80 \<le> sint (totalMins r)}"
    by (simp add: min_mins_def)
  have "sorted_wrt efforts_per_min_descending ?s"
    using assms by (simp add: sort_values_result_def)
  then have sorted: "sorted_wrt efforts_per_min_descending ?top"
    unfolding top by (rule sorted_wrt_take)
  have pairs: "b \<le> a"
    if "i < j" "j < length (efficient_players srt stats)"
      "efforts_per_min (snd (efficient_players srt stats ! i)) = Finite a"
      "efforts_per_min (snd (efficient_players srt stats ! j)) = Finite b" for i j a b
  proof -
    have j: "j < length ?top" using that(2) by simp
    from sorted that(1) j have "efforts_per_min_descending (?top ! i) (?top ! j)"
      by (rule sorted_wrt_nth_less)
    moreover have "?top ! i = snd (efficient_players srt stats ! i)"
      "?top ! j = snd (efficient_players srt stats ! j)"
      using that(1,2) by (simp_all only: nth_map order.strict_trans)
    ultimately show ?thesis
      using that(3,4) by (simp add: efforts_per_min_descending_def)
  qed
  show ?thesis
    using len sub sorted pairs by (auto simp: min_mins_def)
qed

lemma true_div_8_80: "true_div 8 80 = Finite (3602879701896397 / 36028797018963968)"
  by code_simp

lemma true_div_40_160: "true_div 40 160 = Finite (1 / 4)"
  by code_simp

lemma qualified_four_players:
  "filter (\<lambda>r. min_mins \<le> sint (totalMins r)) four_players
     = [aggregate ''Dan Dale'' 80 1 8, aggregate ''Eli East'' 160 2 40]"
  by (simp add: four_players_def aggregate_def min_mins_def)

lemma efficient_four_players:
  "efficient_players insertion_sort four_players
     = [(1, aggregate ''Eli East'' 160 2 40), (2, aggregate ''Dan Dale'' 80 1 8)]"
  unfolding efficient_players_def qualified_four_players
  by (simp add: ranked_def insertion_sort_def efforts_per_min_descending_def aggregate_def
      true_div_8_80 true_div_40_160)

theorem efficient_players_qualified_witness:
  "sort_values_result efforts_per_min_descending
     (filter (\<lambda>r. min_mins \<le> sint (totalMins r)) four_players)
     (insertion_sort efforts_per_min_descending
        (filter (\<lambda>r. min_mins \<le> sint (totalMins r)) four_players))
   \<and> efficient_players insertion_sort four_players
       = [(1, aggregate ''Eli East'' 160 2 40), (2, aggregate ''Dan Dale'' 80 1 8)]
   \<and> map (\<lambda>p. efforts_per_min (snd p)) (efficient_players insertion_sort four_players)
       = [Finite (1 / 4), Finite (3602879701896397 / 36028797018963968)]
   \<and> aggregate ''Cal Cole'' 79 1 50 \<notin> set (map snd (efficient_players insertion_sort four_players))"
proof -
  show ?thesis
    using efficient_players_qualified [where srt = insertion_sort and stats = four_players,
            OF insertion_sort_efforts_per_min]
      insertion_sort_efforts_per_min
        [of "filter (\<lambda>r. min_mins \<le> sint (totalMins r)) four_players"]
    by (simp add: efficient_four_players)
      (simp add: aggregate_def true_div_8_80 true_div_40_160)
qed

text \<open>
  C10. With fewer than 10 rows in the season frame, the top-by-total leaderboard holds
  exactly these rows, each once, in descending order of \<^verbatim>\<open>efforts\<close>: it is the sorted
  frame, and its row at place \<open>i\<close> has the rank \<open>i\<close>, counted from 1 to the number of
  rows. With fewer than 10 rows of at least 80 minutes, the top-by-efficiency
  leaderboard holds exactly those, in descending order of \<^verbatim>\<open>efforts_per_min\<close>, ranked in
  the same way. No row is added and none is left out.
\<close>

theorem short_leaderboards:
  assumes "sort_values_result efforts_descending stats (srt efforts_descending stats)"
    and "sort_values_result efforts_per_min_descending
           (filter (\<lambda>r. min_mins \<le> sint (totalMins r)) stats)
           (srt efforts_per_min_descending
              (filter (\<lambda>r. min_mins \<le> sint (totalMins r)) stats))"
  shows "(length stats < 10 \<longrightarrow>
            length (top_players srt stats) = length stats
          \<and> map fst (top_players srt stats) = [1 ..< Suc (length stats)]
          \<and> map snd (top_players srt stats) = srt efforts_descending stats
          \<and> mset (map snd (top_players srt stats)) = mset stats
          \<and> sorted_wrt (\<lambda>a b. sint (efforts b) \<le> sint (efforts a))
              (map snd (top_players srt stats))
          \<and> map (\<lambda>p. sint (efforts (snd p))) (top_players srt stats)
              = rev (sort (map (\<lambda>r. sint (efforts r)) stats))
          \<and> (\<forall>i<length stats.
                top_players srt stats ! i = (Suc i, srt efforts_descending stats ! i)))
       \<and> (length (filter (\<lambda>r. 80 \<le> sint (totalMins r)) stats) < 10 \<longrightarrow>
            length (efficient_players srt stats)
              = length (filter (\<lambda>r. 80 \<le> sint (totalMins r)) stats)
          \<and> map fst (efficient_players srt stats)
              = [1 ..< Suc (length (filter (\<lambda>r. 80 \<le> sint (totalMins r)) stats))]
          \<and> map snd (efficient_players srt stats)
              = srt efforts_per_min_descending (filter (\<lambda>r. 80 \<le> sint (totalMins r)) stats)
          \<and> mset (map snd (efficient_players srt stats))
              = mset (filter (\<lambda>r. 80 \<le> sint (totalMins r)) stats)
          \<and> sorted_wrt efforts_per_min_descending (map snd (efficient_players srt stats))
          \<and> (\<forall>i<length (filter (\<lambda>r. 80 \<le> sint (totalMins r)) stats).
                efficient_players srt stats ! i
                  = (Suc i, srt efforts_per_min_descending
                              (filter (\<lambda>r. 80 \<le> sint (totalMins r)) stats) ! i)))"
    (is "(?A \<longrightarrow> ?B) \<and> (?C \<longrightarrow> ?D)")
proof -
  have short: "length (ranked (take 10 out)) = length df
               \<and> map fst (ranked (take 10 out)) = [1 ..< Suc (length df)]
               \<and> map snd (ranked (take 10 out)) = out
               \<and> mset (map snd (ranked (take 10 out))) = mset df
               \<and> sorted_wrt before (map snd (ranked (take 10 out)))
               \<and> (\<forall>i<length df. ranked (take 10 out) ! i = (Suc i, out ! i))"
    if "sort_values_result before df out" and "length df < 10"
    for before and df out :: "season_row list"
  proof -
    have len: "length out = length df"
      using that(1) by (rule sort_values_result_length)
    with that(2) have all: "take 10 out = out" by simp
    have "mset out = mset df" "sorted_wrt before out"
      using that(1) by (simp_all add: sort_values_result_def)
    then show ?thesis
      unfolding all using len
      by (simp add: length_ranked map_snd_ranked map_fst_ranked nth_ranked del: upt_Suc)
  qed
  have total: "?B" if n: "?A"
  proof -
    note board = short [OF assms(1) n, folded top_players_def]
    from board have rows: "map snd (top_players srt stats) = srt efforts_descending stats"
      by blast
    have "map (\<lambda>r. sint (efforts r)) (map snd (top_players srt stats))
            = rev (sort (map (\<lambda>r. sint (efforts r)) stats))"
      by (simp only: rows efforts_column_sorted [OF assms(1)])
    then have column: "map (\<lambda>p. sint (efforts (snd p))) (top_players srt stats)
            = rev (sort (map (\<lambda>r. sint (efforts r)) stats))"
      by (simp add: comp_def)
    from board have "sorted_wrt efforts_descending (map snd (top_players srt stats))"
      by blast
    then have "sorted_wrt (\<lambda>a b. sint (efforts b) \<le> sint (efforts a))
                 (map snd (top_players srt stats))"
      by (simp add: efforts_descending_def [abs_def])
    with board column show ?thesis by blast
  qed
  have efficiency: "?D" if n: "?C"
  proof -
    have q: "filter (\<lambda>r. min_mins \<le> sint (totalMins r)) stats
               = filter (\<lambda>r. 80 \<le> sint (totalMins r)) stats"
      by (simp add: min_mins_def)
    note board = efficient_players_def [of srt stats, unfolded q]
    from short [OF assms(2) [unfolded q] n, folded board] show ?thesis
      by blast
  qed
  from total efficiency show ?thesis by blast
qed

lemma total_four_players:
  "top_players insertion_sort four_players
     = [(1, aggregate ''Cal Cole'' 79 1 50), (2, aggregate ''Eli East'' 160 2 40),
        (3, aggregate ''Dan Dale'' 80 1 8), (4, aggregate ''Fin Ford'' 0 1 3)]"
  by (simp add: top_players_def four_players_def ranked_def insertion_sort_def
      efforts_descending_def aggregate_def)

theorem short_leaderboards_witness:
  "sort_values_result efforts_descending four_players
     (insertion_sort efforts_descending four_players)
   \<and> sort_values_result efforts_per_min_descending
       (filter (\<lambda>r. min_mins \<le> sint (totalMins r)) four_players)
       (insertion_sort efforts_per_min_descending
          (filter (\<lambda>r. min_mins \<le> sint (totalMins r)) four_players))
   \<and> length four_players < 10
   \<and> length (filter (\<lambda>r. 80 \<le> sint (totalMins r)) four_players) < 10
   \<and> top_players insertion_sort four_players
       = [(1, aggregate ''Cal Cole'' 79 1 50), (2, aggregate ''Eli East'' 160 2 40),
          (3, aggregate ''Dan Dale'' 80 1 8), (4, aggregate ''Fin Ford'' 0 1 3)]
   \<and> map (\<lambda>p. sint (efforts (snd p))) (top_players insertion_sort four_players)
       = [50, 40, 8, 3]
   \<and> efficient_players insertion_sort four_players
       = [(1, aggregate ''Eli East'' 160 2 40), (2, aggregate ''Dan Dale'' 80 1 8)]"
proof -
  have n: "length four_players = 4"
    by (simp add: four_players_def)
  have q: "filter (\<lambda>r. 80 \<le> sint (totalMins r)) four_players
             = [aggregate ''Dan Dale'' 80 1 8, aggregate ''Eli East'' 160 2 40]"
    by (simp add: four_players_def aggregate_def)
  have col: "map (\<lambda>r. sint (efforts r)) four_players = [50, 8, 40, 3]"
    by (simp add: four_players_def aggregate_def)
  have sorted: "rev (sort [50, 8, 40, 3 :: int]) = [50, 40, 8, 3]"
    by simp
  have "map (\<lambda>p. sint (efforts (snd p))) (top_players insertion_sort four_players)
       = [50, 40, 8, 3]"
    using short_leaderboards [where srt = insertion_sort and stats = four_players,
            OF insertion_sort_efforts insertion_sort_efforts_per_min]
    by (simp only: n col sorted)
  then show ?thesis
    using insertion_sort_efforts [of four_players]
      insertion_sort_efforts_per_min
        [of "filter (\<lambda>r. min_mins \<le> sint (totalMins r)) four_players"]
    by (simp add: n q total_four_players efficient_four_players)
qed

subsection \<open>Searching by player name\<close>

lemma compile_literal:
  assumes "set t \<inter> set regex_special = {}"
  shows "compile t = Some (map Literal t)"
  using assms
proof (induction t)
  case Nil
  then show ?case by simp
next
  case (Cons c cs)
  then have "c \<notin> set regex_special" and "set cs \<inter> set regex_special = {}"
    by auto
  moreover from \<open>c \<notin> set regex_special\<close> have "c \<noteq> CHR ''.''"
    by (auto simp: regex_special_def)
  ultimately show ?case
    using Cons.IH by simp
qed

lemma match_here_literal:
  "match_here (map Literal t) s \<longleftrightarrow> prefix (map lower t) (map lower s)"
proof (induction t arbitrary: s)
  case Nil
  then show ?case by simp
next
  case (Cons c cs)
  then show ?case by (cases s) simp_all
qed

lemma re_search_literal:
  "re_search (map Literal t) s \<longleftrightarrow> sublist (map lower t) (map lower s)"
proof (induction s)
  case Nil
  then show ?case by (cases t) simp_all
next
  case (Cons d ds)
  show ?case
  proof (cases t)
    case Nil
    then show ?thesis by simp
  next
    case (Cons c cs)
    have "re_search (map Literal t) (d # ds)
            \<longleftrightarrow> match_here (map Literal t) (d # ds) \<or> re_search (map Literal t) ds"
      by simp
    also have "\<dots> \<longleftrightarrow> prefix (map lower t) (map lower (d # ds))
                       \<or> sublist (map lower t) (map lower ds)"
      by (simp only: match_here_literal Cons.IH)
    also have "\<dots> \<longleftrightarrow> sublist (map lower t) (map lower (d # ds))"
      using Cons by (simp add: sublist_Cons_right)
    finally show ?thesis .
  qed
qed

lemma search_by_name_literal:
  assumes "set search_term \<inter> set regex_special = {}"
    and "\<forall>r\<in>set df. name r \<noteq> None"
  shows "search_by_name name search_term df
           = Some (filter (\<lambda>r. contains_ignoring_case search_term (name r)) df)"
proof (cases "search_term = []")
  case True
  have "filter (\<lambda>r. contains_ignoring_case [] (name r)) df = df"
    using assms(2)
    by (intro filter_True ballI) (auto simp: contains_ignoring_case_def split: option.split)
  with True show ?thesis by (simp add: search_by_name_def)
next
  case False
  have no_missing: "filter (\<lambda>r. name r = None) df = []"
    using assms(2) by (simp add: filter_empty_conv)
  have "filter (\<lambda>r. case name r of None \<Rightarrow> False
                     | Some n \<Rightarrow> re_search (map Literal search_term) n) df
      = filter (\<lambda>r. contains_ignoring_case search_term (name r)) df"
    by (rule filter_cong [OF refl])
      (simp add: contains_ignoring_case_def re_search_literal split: option.split)
  with False no_missing show ?thesis
    by (simp add: search_by_name_def compile_literal [OF assms(1)])
qed

text \<open>
  C9, amended. Names and terms are strings of characters below 256. For a search term
  without a special character of regular expressions (none of
  \<^verbatim>\<open>. ^ $ * + ? { } [ ] | ( )\<close> and the backslash), the searched season table holds
  exactly the rows whose \<^verbatim>\<open>playerName\<close> contains the term as a substring when letter case
  is ignored, in the order of the table and without a limit, and so does the searched
  per-game table when no row of it lacks the name; the empty term keeps every row.
\<close>

theorem search_is_substring_match:
  assumes "set search_term \<inter> set regex_special = {}"
  shows "filtered_season_df search_term stats
           = Some (filter (\<lambda>r. sublist (map lower search_term)
                                  (map lower (totals_row.playerName r))) stats)
       \<and> ((\<forall>r\<in>set games. csv_row.playerName r \<noteq> None) \<longrightarrow>
            filtered_display_df search_term games
              = Some (filter (\<lambda>r. case csv_row.playerName r of
                                     None \<Rightarrow> False
                                   | Some n \<Rightarrow> sublist (map lower search_term) (map lower n))
                        games))
       \<and> filtered_season_df [] stats = Some stats
       \<and> filtered_display_df [] games = Some games"
proof -
  have season: "filtered_season_df search_term stats
           = Some (filter (\<lambda>r. sublist (map lower search_term)
                                  (map lower (totals_row.playerName r))) stats)"
    using search_by_name_literal [OF assms, of stats "\<lambda>r. Some (totals_row.playerName r)"]
    by (simp add: filtered_season_df_def contains_ignoring_case_def)
  have games: "filtered_display_df search_term games
              = Some (filter (\<lambda>r. case csv_row.playerName r of
                                     None \<Rightarrow> False
                                   | Some n \<Rightarrow> sublist (map lower search_term) (map lower n))
                        games)"
    if "\<forall>r\<in>set games. csv_row.playerName r \<noteq> None"
    using search_by_name_literal [OF assms that]
    by (simp add: filtered_display_df_def contains_ignoring_case_def [abs_def])
  show ?thesis
    using season games
    by (simp add: filtered_display_df_def filtered_season_df_def search_by_name_def)
qed

lemma playerName_with_efforts:
  "csv_row.playerName (round_row.extend (add_teamName r) e) = csv_row.playerName r"
  by (simp add: add_teamName_def csv_row.defs round_row.defs)

lemma playerName_aggregate: "totals_row.playerName (aggregate name m g e) = name"
  by (simp add: aggregate_def)

lemma lower_examples:
  "lower CHR ''s'' = CHR ''s''"
  "lower CHR ''m'' = CHR ''m''"
  "lower CHR ''i'' = CHR ''i''"
  "lower CHR ''t'' = CHR ''t''"
  "lower CHR ''h'' = CHR ''h''"
  "lower CHR ''J'' = CHR ''j''"
  "lower CHR ''o'' = CHR ''o''"
  "lower CHR ''n'' = CHR ''n''"
  "lower CHR ''S'' = CHR ''s''"
  "lower CHR ''a'' = CHR ''a''"
  "lower CHR ''e'' = CHR ''e''"
  "lower CHR '' '' = CHR '' ''"
  "lower CHR ''M'' = CHR ''m''"
  "lower CHR ''I'' = CHR ''i''"
  "lower CHR ''T'' = CHR ''t''"
  "lower CHR ''H'' = CHR ''h''"
  "lower CHR ''.'' = CHR ''.''"
  "lower CHR ''v'' = CHR ''v''"
  "lower CHR 0xE9 = CHR 0xE9"
  "lower CHR 0xC9 = CHR 0xE9"
  by (simp_all add: lower_def upper_case_letters_def lower_case_letters_def)

theorem search_is_substring_match_witness:
  "set ''smith'' \<inter> set regex_special = {}
   \<and> None \<notin> set (map csv_row.playerName search_example)
   \<and> filtered_display_df ''smith'' search_example
       = Some (with_efforts [Runs] (map add_teamName [smith_round1, jon_round1]))
   \<and> filtered_season_df ''smith''
        [aggregate ''John Smith'' 150 2 8, aggregate ''Sam Jones'' 80 1 4,
         aggregate ''Jon SMITH'' 0 1 1]
       = Some [aggregate ''John Smith'' 150 2 8, aggregate ''Jon SMITH'' 0 1 1]
   \<and> filtered_season_df [CHR 0xE9] [aggregate [CHR 0xC9, CHR ''v'', CHR ''e''] 80 1 4]
       = Some [aggregate [CHR 0xC9, CHR ''v'', CHR ''e''] 80 1 4]"
proof -
  have literal: "set ''smith'' \<inter> set regex_special = {}"
    "set [CHR 0xE9] \<inter> set regex_special = {}"
    by (simp_all add: regex_special_def)
  have names: "csv_row.playerName smith_round1 = Some ''John Smith''"
    "csv_row.playerName jon_round1 = Some ''Jon SMITH''"
    "csv_row.playerName jones_round1 = Some ''Sam Jones''"
    by (simp_all add: smith_round1_def jon_round1_def jones_round1_def)
  have accent: "filtered_season_df [CHR 0xE9] [aggregate [CHR 0xC9, CHR ''v'', CHR ''e''] 80 1 4]
       = Some [aggregate [CHR 0xC9, CHR ''v'', CHR ''e''] 80 1 4]"
    using search_is_substring_match [OF literal(2),
        of "[aggregate [CHR 0xC9, CHR ''v'', CHR ''e''] 80 1 4]" "[]"]
    by (simp add: playerName_aggregate lower_examples sublist_code prefix_code)
  show ?thesis
    using literal(1) accent search_is_substring_match [OF literal(1), of
        "[aggregate ''John Smith'' 150 2 8, aggregate ''Sam Jones'' 80 1 4,
          aggregate ''Jon SMITH'' 0 1 1]" search_example]
    by (simp add: search_example_def with_efforts_def playerName_with_efforts
        playerName_aggregate names lower_examples sublist_code prefix_code)
qed

text \<open>
  C9 as stated fails for the term \<^verbatim>\<open>.\<close>: \<^verbatim>\<open>str.contains\<close> reads it as the regular
  expression that matches any character, so that every row is returned although no name
  contains a dot.
\<close>

theorem search_term_is_a_regular_expression:
  "filtered_season_df ''.'' [aggregate ''John Smith'' 150 2 8, aggregate ''Sam Jones'' 80 1 4]
     = Some [aggregate ''John Smith'' 150 2 8, aggregate ''Sam Jones'' 80 1 4]
   \<and> \<not> sublist (map lower ''.'') (map lower ''John Smith'')
   \<and> \<not> sublist (map lower ''.'') (map lower ''Sam Jones'')"
  by (simp add: filtered_season_df_def search_by_name_def playerName_aggregate
      lower_examples sublist_code prefix_code)

end
